theory Spec2Isabelle
  imports Complex_Main "HOL-Library.AList"
begin

section \<open>Values shared by the services\<close>

text \<open>
  Identifiers are UUIDs in the source; they are only ever compared and generated
  fresh, so they are natural numbers here and \<open>uuidv4()\<close> is the successor of the
  largest identifier of the table the row goes to. Instants (\<open>Date.now()\<close>, SQL
  \<open>NOW()\<close>) are milliseconds as integers; every operation that reads the clock takes
  its reading as the argument \<open>now\<close>. JavaScript numbers are integers or rationals:
  \<open>NaN\<close>, infinities and binary rounding are outside the model.
\<close>

type_synonym uuid = nat

datatype json = JNull | JBool bool | JNum rat | JStr string | JObj "(string \<times> json) list"

text \<open>Thrown values: the error classes of the repository, each with its message.\<close>

datatype error =
    Error string
  | TypeError string
  | PaymentValidationError string
  | RefundValidationError string
  | WebhookUrlValidationError string
  | ProviderError string
  | IdempotencyConflictError string
  | DatabaseError string

fun message :: "error \<Rightarrow> string" where
  "message (Error m) = m"
| "message (TypeError m) = m"
| "message (PaymentValidationError m) = m"
| "message (RefundValidationError m) = m"
| "message (WebhookUrlValidationError m) = m"
| "message (ProviderError m) = m"
| "message (IdempotencyConflictError m) = m"
| "message (DatabaseError m) = m"

definition fresh_id :: "uuid list \<Rightarrow> uuid" where
  "fresh_id ids = Suc (fold max ids 0)"

text \<open>\<open>Number.prototype.toString\<close> on integers, for the template strings.\<close>

definition digit :: "nat \<Rightarrow> char" where
  "digit d = ''0123456789'' ! d"

fun decimal :: "nat \<Rightarrow> string" where
  "decimal n = (if 10 \<le> n then decimal (n div 10) @ [digit (n mod 10)] else [digit n])"

definition Number_toString :: "int \<Rightarrow> string" where
  "Number_toString i = (if 0 \<le> i then decimal (nat i) else CHR ''-'' # decimal (nat (- i)))"

fun join :: "string \<Rightarrow> string list \<Rightarrow> string" where
  "join sep [] = []"
| "join sep [x] = x"
| "join sep (x # y # ys) = x @ sep @ join sep (y # ys)"

definition toLowerCase :: "string \<Rightarrow> string" where
  "toLowerCase s =
     map (\<lambda>c. let n = (of_char c :: nat) in if 65 \<le> n \<and> n \<le> 90 then char_of (n + 32) else c) s"

definition toUpperCase :: "string \<Rightarrow> string" where
  "toUpperCase s =
     map (\<lambda>c. let n = (of_char c :: nat) in if 97 \<le> n \<and> n \<le> 122 then char_of (n - 32) else c) s"

text \<open>\<open>x || null\<close> on an optional string: the empty string is falsy.\<close>

definition or_null :: "string option \<Rightarrow> string option" where
  "or_null x = (case x of Some s \<Rightarrow> if s = [] then None else Some s | None \<Rightarrow> None)"

definition startsWith :: "string \<Rightarrow> string \<Rightarrow> bool" where
  "startsWith s p = (take (length p) s = p)"

definition endsWith :: "string \<Rightarrow> string \<Rightarrow> bool" where
  "endsWith s p = (length p \<le> length s \<and> drop (length s - length p) s = p)"

text \<open>\<open>xs[i]\<close> of JavaScript: \<open>undefined\<close> outside the array.\<close>

definition js_index :: "'a list \<Rightarrow> int \<Rightarrow> 'a option" where
  "js_index xs i = (if 0 \<le> i \<and> i < int (length xs) then Some (xs ! nat i) else None)"

section \<open>Provider interface (providers/base.provider.ts, providers/index.ts)\<close>

text \<open>
  The providers shipped with the repository are simulations; a provider is taken here
  as any pair of functions from requests to what the call returns or throws.
\<close>

record PaymentRequest =
  preq_amount :: rat
  preq_currency :: string
  preq_paymentId :: uuid
  preq_description :: "string option"
  preq_metadata :: "(string \<times> json) list option"

record PaymentResponse =
  pr_success :: bool
  pr_transactionId :: string
  pr_status :: string
  pr_rawResponse :: "(string \<times> json) list"
  pr_errorCode :: "string option"
  pr_errorMessage :: "string option"

record RefundRequest =
  rreq_transactionId :: string
  rreq_amount :: rat
  rreq_reason :: "string option"

record RefundResponse =
  rr_success :: bool
  rr_refundId :: string
  rr_status :: string
  rr_rawResponse :: "(string \<times> json) list"
  rr_errorCode :: "string option"
  rr_errorMessage :: "string option"

record BaseProvider =
  prov_processPayment :: "PaymentRequest \<Rightarrow> error + PaymentResponse"
  prov_processRefund :: "RefundRequest \<Rightarrow> error + RefundResponse"

section \<open>Configuration and runtime library\<close>

text \<open>
  The fields of \<open>config\<close> the services read (config/index.ts), the provider registry,
  and the functions of the runtime the repository calls but does not define: the
  WHATWG URL parser (\<open>Inl\<close> is the message of the \<open>TypeError\<close> it throws),
  \<open>JSON.stringify\<close>, \<open>Date.prototype.toISOString\<close> and the HMAC of utils/crypto.
\<close>

record URL =
  protocol :: string
  hostname :: string

record env =
  isProduction :: bool
  maxRetries :: int
  retryDelays :: "int list"
  secret :: string
  providers :: "(string \<times> BaseProvider) list"
  new_URL :: "string \<Rightarrow> string + URL"
  JSON_stringify :: "json \<Rightarrow> string"
  toISOString :: "int \<Rightarrow> string"
  generateHmacSignature :: "string \<Rightarrow> string \<Rightarrow> string"

section \<open>Webhook URL validation (services/webhook.service.ts)\<close>

definition BLOCKED_HOSTS :: "string list" where
  "BLOCKED_HOSTS =
     [''localhost'', ''127.0.0.1'', ''0.0.0.0'', ''::1'', ''[::1]'',
      ''metadata.google.internal'', ''169.254.169.254'', ''metadata.google.internal.'']"

definition ALLOWED_PROTOCOLS :: "env \<Rightarrow> string list" where
  "ALLOWED_PROTOCOLS e = (if isProduction e then [''https:''] else [''https:'', ''http:''])"

text \<open>
  The seven regular expressions of \<open>isPrivateIP\<close>, each anchored at the start of the
  host name. \<open>range_172\<close> is \<open>/^172\.(1[6-9]|2[0-9]|3[0-1])\./\<close>; the three IPv6
  patterns carry the \<open>i\<close> flag.
\<close>

definition range_172 :: "string \<Rightarrow> bool" where
  "range_172 h =
     (startsWith h ''172.'' \<and>
      (case drop 4 h of
         a # b # c # _ \<Rightarrow>
           c = CHR ''.'' \<and>
           ((a = CHR ''1'' \<and> b \<in> set ''6789'') \<or>
            (a = CHR ''2'' \<and> b \<in> set ''0123456789'') \<or>
            (a = CHR ''3'' \<and> b \<in> set ''01''))
       | _ \<Rightarrow> False))"

definition isPrivateIP :: "string \<Rightarrow> bool" where
  "isPrivateIP h =
     (startsWith h ''10.'' \<or>
      range_172 h \<or>
      startsWith h ''192.168.'' \<or>
      startsWith h ''169.254.'' \<or>
      startsWith (toLowerCase h) ''fc00:'' \<or>
      startsWith (toLowerCase h) ''fd00:'' \<or>
      startsWith (toLowerCase h) ''fe80:'')"

record url_validation =
  valid :: bool
  v_error :: "string option"

definition validateWebhookUrl :: "env \<Rightarrow> string \<Rightarrow> url_validation" where
  "validateWebhookUrl e urlString =
     (case new_URL e urlString of
        Inl msg \<Rightarrow> \<lparr>valid = False, v_error = Some (''Invalid URL format: '' @ msg)\<rparr>
      | Inr url \<Rightarrow>
          if protocol url \<notin> set (ALLOWED_PROTOCOLS e) then
            \<lparr>valid = False,
             v_error = Some (''Invalid protocol: '' @ protocol url @ ''. Only '' @
                             join '', '' (ALLOWED_PROTOCOLS e) @ '' allowed.'')\<rparr>
          else
            let host = toLowerCase (hostname url) in
            if host \<in> set BLOCKED_HOSTS then
              \<lparr>valid = False, v_error = Some (''Blocked host: '' @ host)\<rparr>
            else if isPrivateIP host then
              \<lparr>valid = False, v_error = Some (''Private IP addresses not allowed: '' @ host)\<rparr>
            else if endsWith host ''.internal'' \<or> endsWith host ''.local'' then
              \<lparr>valid = False, v_error = Some (''Internal domains not allowed: '' @ host)\<rparr>
            else \<lparr>valid = True, v_error = None\<rparr>)"

section \<open>Webhook delivery (services/webhook.service.ts)\<close>

datatype WebhookStatus = WPending | WSent | WFailed

record WebhookEvent =
  w_id :: uuid
  w_payment_id :: "uuid option"
  w_event_type :: string
  w_payload :: "(string \<times> json) list"
  w_url :: string
  w_signature :: "string option"
  w_attempts :: int
  w_max_attempts :: int
  w_next_retry_at :: "int option"
  w_last_error :: "string option"
  w_status :: WebhookStatus
  w_created_at :: int
  w_sent_at :: "int option"

record QueueWebhookInput =
  q_payment_id :: "uuid option"
  q_event_type :: string
  q_url :: string
  q_payload :: "(string \<times> json) list"

text \<open>One \<open>fetch\<close> call of \<open>sendWebhook\<close>, and the response it may get.\<close>

record http_request =
  rq_url :: string
  rq_signature :: string
  rq_webhook_id :: uuid
  rq_event_type :: string
  rq_body :: string

record http_response =
  rs_status :: int
  rs_text :: string

text \<open>
  The part of the world the webhook service acts on: the \<open>webhook_events\<close> table,
  whether \<open>getChannel()\<close> returns a channel, the messages sent to the
  \<open>webhook.events\<close> queue (each carries one webhook id), the timers set by
  \<open>setTimeout\<close> (the instant each fires and the webhook id it will publish) and the
  HTTP requests made so far.
\<close>

record hooks =
  webhook_events :: "WebhookEvent list"
  channel :: bool
  queue :: "uuid list"
  timers :: "(int \<times> uuid) list"
  requests :: "http_request list"

definition generateSignature :: "env \<Rightarrow> int \<Rightarrow> string \<Rightarrow> string" where
  "generateSignature e now payload =
     (let timestamp = Number_toString (now div 1000)
      in ''t='' @ timestamp @ '',v1='' @
         generateHmacSignature e (timestamp @ ''.'' @ payload) (secret e))"

definition publishToQueue :: "WebhookEvent \<Rightarrow> 'a hooks_scheme \<Rightarrow> 'a hooks_scheme" where
  "publishToQueue webhook w =
     (if channel w then w\<lparr>queue := queue w @ [w_id webhook]\<rparr> else w)"

definition getWebhookById :: "uuid \<Rightarrow> 'a hooks_scheme \<Rightarrow> WebhookEvent option" where
  "getWebhookById i w = find (\<lambda>r. w_id r = i) (webhook_events w)"

text \<open>\<open>UPDATE webhook_events SET ... WHERE id = $n\<close>.\<close>

definition update_webhook ::
  "uuid \<Rightarrow> (WebhookEvent \<Rightarrow> WebhookEvent) \<Rightarrow> 'a hooks_scheme \<Rightarrow> 'a hooks_scheme" where
  "update_webhook i f w =
     w\<lparr>webhook_events := map (\<lambda>r. if w_id r = i then f r else r) (webhook_events w)\<rparr>"

definition queueWebhook ::
  "env \<Rightarrow> int \<Rightarrow> QueueWebhookInput \<Rightarrow> 'a hooks_scheme \<Rightarrow> (error + WebhookEvent) \<times> 'a hooks_scheme" where
  "queueWebhook e now input w =
     (let urlValidation = validateWebhookUrl e (q_url input) in
      if \<not> valid urlValidation then
        (Inl (WebhookUrlValidationError
                (case v_error urlValidation of
                   Some m \<Rightarrow> if m = [] then ''Invalid webhook URL'' else m
                 | None \<Rightarrow> ''Invalid webhook URL'')), w)
      else
        let i = fresh_id (map w_id (webhook_events w));
            payloadWithTimestamp =
              AList.update ''timestamp'' (JStr (toISOString e now))
                (AList.update ''event_type'' (JStr (q_event_type input)) (q_payload input));
            payloadString = JSON_stringify e (JObj payloadWithTimestamp);
            webhook = \<lparr>w_id = i, w_payment_id = q_payment_id input,
                       w_event_type = q_event_type input, w_payload = payloadWithTimestamp,
                       w_url = q_url input,
                       w_signature = Some (generateSignature e now payloadString),
                       w_attempts = 0, w_max_attempts = maxRetries e,
                       w_next_retry_at = None, w_last_error = None, w_status = WPending,
                       w_created_at = now, w_sent_at = None\<rparr>
        in (Inr webhook,
            publishToQueue webhook (w\<lparr>webhook_events := webhook_events w @ [webhook]\<rparr>)))"

definition sendWebhook :: "env \<Rightarrow> int \<Rightarrow> WebhookEvent \<Rightarrow> 'a hooks_scheme \<Rightarrow> 'a hooks_scheme" where
  "sendWebhook e now webhook w =
     (let payload = JSON_stringify e (JObj (w_payload webhook))
      in w\<lparr>requests := requests w @
            [\<lparr>rq_url = w_url webhook,
              rq_signature =
                (case w_signature webhook of
                   Some s \<Rightarrow> if s = [] then generateSignature e now payload else s
                 | None \<Rightarrow> generateSignature e now payload),
              rq_webhook_id = w_id webhook,
              rq_event_type = w_event_type webhook,
              rq_body = payload\<rparr>]\<rparr>)"

definition markAsSent :: "int \<Rightarrow> uuid \<Rightarrow> 'a hooks_scheme \<Rightarrow> 'a hooks_scheme" where
  "markAsSent now webhookId w =
     update_webhook webhookId (\<lambda>r. r\<lparr>w_status := WSent, w_sent_at := Some now\<rparr>) w"

definition retry_delay :: "env \<Rightarrow> int \<Rightarrow> int" where
  "retry_delay e newAttempts =
     (case js_index (retryDelays e) (min (newAttempts - 1) (int (length (retryDelays e)) - 1)) of
        Some d \<Rightarrow> if d = 0 then 3600000 else d
      | None \<Rightarrow> 3600000)"

definition handleFailure ::
  "env \<Rightarrow> int \<Rightarrow> WebhookEvent \<Rightarrow> string \<Rightarrow> 'a hooks_scheme \<Rightarrow> 'a hooks_scheme" where
  "handleFailure e now webhook errorMessage w =
     (let newAttempts = w_attempts webhook + 1 in
      if newAttempts \<ge> w_max_attempts webhook then
        update_webhook (w_id webhook)
          (\<lambda>r. r\<lparr>w_status := WFailed, w_attempts := newAttempts,
                 w_last_error := Some errorMessage\<rparr>) w
      else
        let delay = retry_delay e newAttempts;
            nextRetryAt = now + delay;
            w1 = update_webhook (w_id webhook)
                   (\<lambda>r. r\<lparr>w_attempts := newAttempts, w_last_error := Some errorMessage,
                          w_next_retry_at := Some nextRetryAt\<rparr>) w
        in if channel w1 then w1\<lparr>timers := timers w1 @ [(now + delay, w_id webhook)]\<rparr> else w1)"

text \<open>\<open>response.ok\<close> of the fetch API: a status in the range 200 to 299.\<close>

definition ok :: "http_response \<Rightarrow> bool" where
  "ok response = (200 \<le> rs_status response \<and> rs_status response \<le> 299)"

text \<open>
  \<open>processWebhook\<close>. The outcome of the \<open>fetch\<close> is an argument: a response, or the
  error a transport failure or the 30 second abort throws. It is looked at only
  when the request is made.
\<close>

definition processWebhook ::
  "env \<Rightarrow> int \<Rightarrow> error + http_response \<Rightarrow> uuid \<Rightarrow> 'a hooks_scheme \<Rightarrow> bool \<times> 'a hooks_scheme" where
  "processWebhook e now outcome webhookId w =
     (case getWebhookById webhookId w of
        None \<Rightarrow> (False, w)
      | Some webhook \<Rightarrow>
          if w_status webhook = WSent then (True, w)
          else if w_status webhook = WFailed then (False, w)
          else
            let w1 = sendWebhook e now webhook w in
            (case outcome of
               Inr response \<Rightarrow>
                 if ok response then (True, markAsSent now webhookId w1)
                 else
                   (False,
                    handleFailure e now webhook
                      (''HTTP '' @ Number_toString (rs_status response) @ '': '' @ rs_text response) w1)
             | Inl err \<Rightarrow> (False, handleFailure e now webhook (message err) w1)))"



text \<open>A delivery fails when the request throws or the response is not \<open>ok\<close>.\<close>

definition delivery_failed :: "error + http_response \<Rightarrow> bool" where
  "delivery_failed outcome = (case outcome of Inl err \<Rightarrow> True | Inr response \<Rightarrow> \<not> ok response)"

definition failure_message :: "error + http_response \<Rightarrow> string" where
  "failure_message outcome =
     (case outcome of
        Inl err \<Rightarrow> message err
      | Inr response \<Rightarrow> ''HTTP '' @ Number_toString (rs_status response) @ '': '' @ rs_text response)"

text \<open>
  The invariant of the \<open>webhook_events\<close> table behind the delivery bounds: identifiers
  are a primary key, attempts are never negative and never exceed the limit, and a
  pending event has at least one attempt left.
\<close>

definition hooks_inv :: "'a hooks_scheme \<Rightarrow> bool" where
  "hooks_inv w =
     (distinct (map w_id (webhook_events w)) \<and>
      (\<forall>r \<in> set (webhook_events w).
         0 \<le> w_attempts r \<and> w_attempts r \<le> w_max_attempts r \<and>
         (w_status r = WPending \<longrightarrow> w_attempts r < w_max_attempts r)))"

text \<open>
  A concrete configuration for the examples: the defaults of config/index.ts in
  production. \<open>example_new_URL\<close> is what the URL parser returns on the two URLs the
  examples use (an IPv6 host name keeps its brackets).
\<close>

definition example_new_URL :: "string \<Rightarrow> string + URL" where
  "example_new_URL u =
     (if u = ''https://merchant.example/hook'' then
        Inr \<lparr>protocol = ''https:'', hostname = ''merchant.example''\<rparr>
      else if u = ''https://[fd12:3456:789a::1]/hook'' then
        Inr \<lparr>protocol = ''https:'', hostname = ''[fd12:3456:789a::1]''\<rparr>
      else Inl ''Invalid URL'')"

text \<open>
  A provider with the rules of the simulated ones: an amount ending in .99 is
  declined, one ending in .50 stays pending, any other is completed; a refund of 0.01
  fails and any other succeeds.
\<close>

definition example_provider :: BaseProvider where
  "example_provider =
     \<lparr>prov_processPayment =
        (\<lambda>rq. if preq_amount rq - of_int \<lfloor>preq_amount rq\<rfloor> = 99 / 100 then
                 Inr \<lparr>pr_success = False, pr_transactionId = ''ch_declined'', pr_status = ''failed'',
                      pr_rawResponse = [(''status'', JStr ''failed'')],
                      pr_errorCode = Some ''card_declined'',
                      pr_errorMessage = Some ''Your card was declined.''\<rparr>
               else if preq_amount rq - of_int \<lfloor>preq_amount rq\<rfloor> = 1 / 2 then
                 Inr \<lparr>pr_success = True, pr_transactionId = ''ch_pending'', pr_status = ''pending'',
                      pr_rawResponse = [(''status'', JStr ''pending'')],
                      pr_errorCode = None, pr_errorMessage = None\<rparr>
               else
                 Inr \<lparr>pr_success = True, pr_transactionId = ''ch_ok'', pr_status = ''completed'',
                      pr_rawResponse = [(''status'', JStr ''succeeded'')],
                      pr_errorCode = None, pr_errorMessage = None\<rparr>),
      prov_processRefund =
        (\<lambda>rq. if rreq_amount rq = 1 / 100 then
                 Inr \<lparr>rr_success = False, rr_refundId = ''re_failed'', rr_status = ''failed'',
                      rr_rawResponse = [(''status'', JStr ''failed'')],
                      rr_errorCode = Some ''charge_already_refunded'',
                      rr_errorMessage = Some ''Charge has already been refunded.''\<rparr>
               else
                 Inr \<lparr>rr_success = True, rr_refundId = ''re_ok'', rr_status = ''completed'',
                      rr_rawResponse = [(''status'', JStr ''succeeded'')],
                      rr_errorCode = None, rr_errorMessage = None\<rparr>)\<rparr>"

definition example_env :: env where
  "example_env =
     \<lparr>isProduction = True, maxRetries = 5,
      retryDelays = [60000, 300000, 900000, 3600000], secret = ''whsec'',
      providers = [(''stripe'', example_provider), (''paypal'', example_provider)],
      new_URL = example_new_URL,
      JSON_stringify = (\<lambda>j. ''{}''), toISOString = (\<lambda>t. Number_toString t),
      generateHmacSignature = (\<lambda>payload key. ''mac'')\<rparr>"

definition empty_hooks :: hooks where
  "empty_hooks = \<lparr>webhook_events = [], channel = True, queue = [], timers = [], requests = []\<rparr>"

definition example_input :: "string \<Rightarrow> QueueWebhookInput" where
  "example_input u =
     \<lparr>q_payment_id = None, q_event_type = ''payment.completed'', q_url = u, q_payload = []\<rparr>"

definition http_500 :: "error + http_response" where
  "http_500 = Inr \<lparr>rs_status = 500, rs_text = ''down''\<rparr>"

definition http_200 :: "error + http_response" where
  "http_200 = Inr \<lparr>rs_status = 200, rs_text = ''ok''\<rparr>"

text \<open>
  One event enqueued at instant 0, then delivered at the instants the retry schedule
  gives: three responses 500 and one response 200.
\<close>

definition hooks0 :: hooks where
  "hooks0 = snd (queueWebhook example_env 0 (example_input ''https://merchant.example/hook'') empty_hooks)"

definition hooks1 :: hooks where
  "hooks1 = snd (processWebhook example_env 1000 http_500 1 hooks0)"

definition hooks2 :: hooks where
  "hooks2 = snd (processWebhook example_env 61000 http_500 1 hooks1)"

definition hooks3 :: hooks where
  "hooks3 = snd (processWebhook example_env 361000 http_500 1 hooks2)"

definition hooks4 :: hooks where
  "hooks4 = snd (processWebhook example_env 1261000 http_200 1 hooks3)"



section \<open>Saga orchestrator (services/saga.service.ts)\<close>

text \<open>
  An \<open>async\<close> function either fulfils its promise with a value or rejects it with the
  value thrown: its result is \<open>error + 'a\<close>, \<open>Inl\<close> for the rejection. A step acts on
  a context of type \<open>'c\<close> and on the world \<open>'w\<close> outside the orchestrator (database,
  provider, queue); contexts are values, so a step that throws leaves the context of
  the orchestrator as it was.
\<close>

record ('c, 'w) SagaStep =
  name :: string
  execute :: "'c \<Rightarrow> 'w \<Rightarrow> (error + 'c) \<times> 'w"
  compensate :: "('c \<Rightarrow> 'w \<Rightarrow> (error + unit) \<times> 'w) option"

record 'c SagaResult =
  success :: bool
  result_context :: 'c
  result_error :: "error option"
  failedStep :: "string option"
  completedSteps :: "string list"

text \<open>The lines the orchestrator hands to the logger: level, the \<open>step\<close> field, message.\<close>

datatype level = Debug | LogError

datatype log_entry = Log level "string option" string

text \<open>
  The \<open>for ... of\<close> loop of the \<open>try\<close> block. It ends with the error of the step that
  threw, if one did, and with \<open>completedSteps\<close> and \<open>context\<close> as they then are.
\<close>

fun run_steps ::
  "('c, 'w) SagaStep list \<Rightarrow> ('c, 'w) SagaStep list \<Rightarrow> 'c \<Rightarrow> 'w \<Rightarrow> log_entry list \<Rightarrow>
   error option \<times> ('c, 'w) SagaStep list \<times> 'c \<times> 'w \<times> log_entry list" where
  "run_steps [] completed ctx w lg = (None, completed, ctx, w, lg)"
| "run_steps (step # rest) completed ctx w lg =
     (case execute step ctx w of
        (Inr ctx', w') \<Rightarrow>
          run_steps rest (completed @ [step]) ctx' w'
            (lg @ [Log Debug (Some (name step)) ''Executing saga step'',
                   Log Debug (Some (name step)) ''Saga step completed''])
      | (Inl err, w') \<Rightarrow>
          (Some err, completed, ctx, w',
           lg @ [Log Debug (Some (name step)) ''Executing saga step'']))"

text \<open>
  The loop \<open>for (let i = completedSteps.length - 1; i >= 0; i--)\<close> of the \<open>catch\<close>
  block; the first argument is \<open>i + 1\<close>. The inner \<open>try\<close> logs what a compensation
  throws and goes on.
\<close>

fun compensate_from ::
  "nat \<Rightarrow> ('c, 'w) SagaStep list \<Rightarrow> 'c \<Rightarrow> 'w \<Rightarrow> log_entry list \<Rightarrow> 'w \<times> log_entry list" where
  "compensate_from 0 completed ctx w lg = (w, lg)"
| "compensate_from (Suc i) completed ctx w lg =
     (case js_index completed (int i) of
        None \<Rightarrow> compensate_from i completed ctx w lg
      | Some step \<Rightarrow>
          (case compensate step of
             None \<Rightarrow> compensate_from i completed ctx w lg
           | Some undo \<Rightarrow>
               (case undo ctx w of
                  (Inr u, w') \<Rightarrow>
                    compensate_from i completed ctx w'
                      (lg @ [Log Debug (Some (name step)) ''Executing compensation'',
                             Log Debug (Some (name step)) ''Compensation completed''])
                | (Inl compensationError, w') \<Rightarrow>
                    compensate_from i completed ctx w'
                      (lg @ [Log Debug (Some (name step)) ''Executing compensation'',
                             Log LogError (Some (name step)) ''Compensation failed'']))))"

definition SagaOrchestrator_execute ::
  "('c, 'w) SagaStep list \<Rightarrow> 'c \<Rightarrow> 'w \<Rightarrow> (error + 'c SagaResult) \<times> 'w \<times> log_entry list" where
  "SagaOrchestrator_execute steps initialContext w =
     (case run_steps steps [] initialContext w [] of
        (None, completed, ctx, w', lg) \<Rightarrow>
          (Inr \<lparr>success = True, result_context = ctx, result_error = None,
                failedStep = None, completedSteps = map name completed\<rparr>, w', lg)
      | (Some err, completed, ctx, w', lg) \<Rightarrow>
          (let failedStepIndex = length completed;
               failed = js_index steps (int failedStepIndex);
               lg1 = lg @ [Log LogError (map_option name failed)
                             ''Saga step failed, starting compensation''];
               (w'', lg2) = compensate_from (length completed) completed ctx w' lg1
           in (Inr \<lparr>success = False, result_context = ctx, result_error = Some err,
                     failedStep = map_option name failed,
                     completedSteps = map name completed\<rparr>, w'', lg2)))"

text \<open>
  The words of the specification, for comparison: steps that complete in order;
  the compensations of a list of steps run in the order of the list, each on the
  world the previous one left, whatever it returns; the compensations a log shows.
\<close>

inductive completes ::
  "('c, 'w) SagaStep list \<Rightarrow> 'c \<Rightarrow> 'w \<Rightarrow> 'c \<Rightarrow> 'w \<Rightarrow> bool" where
  completes_Nil: "completes [] ctx w ctx w"
| completes_Cons:
    "execute step ctx w = (Inr ctx1, w1) \<Longrightarrow> completes rest ctx1 w1 ctx' w' \<Longrightarrow>
     completes (step # rest) ctx w ctx' w'"

fun sweep :: "('c, 'w) SagaStep list \<Rightarrow> 'c \<Rightarrow> 'w \<Rightarrow> 'w" where
  "sweep [] ctx w = w"
| "sweep (step # rest) ctx w =
     sweep rest ctx (case compensate step of None \<Rightarrow> w | Some undo \<Rightarrow> snd (undo ctx w))"

definition compensations_run :: "log_entry list \<Rightarrow> string list" where
  "compensations_run lg =
     concat (map (\<lambda>l. case l of
                         Log lv (Some n) m \<Rightarrow> if m = ''Executing compensation'' then [n] else []
                       | Log lv None m \<Rightarrow> []) lg)"

definition steps_started :: "log_entry list \<Rightarrow> string list" where
  "steps_started lg =
     concat (map (\<lambda>l. case l of
                         Log lv (Some n) m \<Rightarrow> if m = ''Executing saga step'' then [n] else []
                       | Log lv None m \<Rightarrow> []) lg)"


text \<open>The saga of the unit test "should continue compensation even if one fails".\<close>

definition test_step :: "string \<Rightarrow> bool \<Rightarrow> (string list, string list) SagaStep" where
  "test_step n comp_throws =
     \<lparr>name = n,
      execute = (\<lambda>ctx w. (Inr (ctx @ [n]), w)),
      compensate = Some (\<lambda>ctx w. (if comp_throws then Inl (Error ''Compensation failed'') else Inr (),
                                    w @ [''comp_'' @ n]))\<rparr>"

definition test_step3 :: "(string list, string list) SagaStep" where
  "test_step3 = \<lparr>name = ''step3'', execute = (\<lambda>ctx w. (Inl (Error ''Failed''), w)), compensate = None\<rparr>"

definition test_saga :: "(string list, string list) SagaStep list" where
  "test_saga = [test_step ''step1'' False, test_step ''step2'' True, test_step3]"

section \<open>Tables (the SQL schema and models/*.ts)\<close>

text \<open>
  A \<open>DECIMAL(19, 4)\<close> column holds a whole number of ten-thousandths: amounts in the
  tables are integers in that unit. A number written to such a column is rounded to
  four decimals, half away from zero (\<open>round4\<close>, for the positive values that reach
  it); \<open>parseFloat\<close> of the column is \<open>amount_of\<close>. Column lengths and foreign keys
  are not checked: every insert of the services names a payment it has just read.
\<close>

definition round4 :: "rat \<Rightarrow> int" where
  "round4 x = \<lfloor>x * 10000 + 1 / 2\<rfloor>"

definition amount_of :: "int \<Rightarrow> rat" where
  "amount_of n = of_int n / 10000"

definition pad4 :: "string \<Rightarrow> string" where
  "pad4 s = replicate (4 - length s) CHR ''0'' @ s"

definition numeric_text :: "int \<Rightarrow> string" where
  "numeric_text n = Number_toString (n div 10000) @ ''.'' @ pad4 (Number_toString (n mod 10000))"

datatype PaymentStatus = Pending | Processing | Completed | Failed | Refunded | PartiallyRefunded

fun status_text :: "PaymentStatus \<Rightarrow> string" where
  "status_text Pending = ''pending''"
| "status_text Processing = ''processing''"
| "status_text Completed = ''completed''"
| "status_text Failed = ''failed''"
| "status_text Refunded = ''refunded''"
| "status_text PartiallyRefunded = ''partially_refunded''"

record Payment =
  p_id :: uuid
  p_external_id :: "string option"
  p_merchant_id :: string
  p_amount :: int
  p_currency :: string
  p_status :: PaymentStatus
  p_provider :: string
  p_provider_transaction_id :: "string option"
  p_description :: "string option"
  p_metadata :: "(string \<times> json) list"
  p_webhook_url :: "string option"
  p_created_at :: int
  p_updated_at :: int

record Transaction =
  t_id :: uuid
  t_payment_id :: uuid
  t_status :: string
  t_provider_response :: "(string \<times> json) list option"
  t_error_message :: "string option"
  t_created_at :: int

datatype RefundStatus = RPending | RCompleted | RFailed


record Refund =
  r_id :: uuid
  r_payment_id :: uuid
  r_amount :: int
  r_status :: RefundStatus
  r_reason :: "string option"
  r_provider_refund_id :: "string option"
  r_created_at :: int
  r_updated_at :: int

record AuditLog =
  a_id :: uuid
  a_entity_type :: string
  a_entity_id :: uuid
  a_action :: string
  a_old_value :: "(string \<times> json) list option"
  a_new_value :: "(string \<times> json) list option"
  a_actor :: "string option"
  a_actor_type :: string
  a_ip_address :: "string option"
  a_user_agent :: "string option"
  a_created_at :: int

record AuditContext =
  actor :: "string option"
  actor_type :: "string option"
  ip_address :: "string option"
  user_agent :: "string option"

text \<open>The world of the services: the webhook tables and queue, and the other tables.\<close>

record world = hooks +
  payments :: "Payment list"
  transactions :: "Transaction list"
  refunds :: "Refund list"
  audit_logs :: "AuditLog list"

subsection \<open>models/payment.ts\<close>

record PaymentInput =
  in_external_id :: "string option"
  in_merchant_id :: string
  in_amount :: rat
  in_currency :: string
  in_provider :: string
  in_description :: "string option"
  in_metadata :: "(string \<times> json) list option"
  in_webhook_url :: "string option"

record UpdatePaymentInput =
  up_status :: "PaymentStatus option"
  up_provider_transaction_id :: "string option"
  up_metadata :: "(string \<times> json) list option"

text \<open>
  The \<open>INSERT\<close> of \<open>createPayment\<close>, with the constraints of the table that can
  refuse it: \<open>external_id\<close> is unique, the amount fits the column and is positive
  after rounding.
\<close>

definition createPayment :: "int \<Rightarrow> PaymentInput \<Rightarrow> world \<Rightarrow> (error + Payment) \<times> world" where
  "createPayment now input w =
     (let external_id = or_null (in_external_id input);
          amount = round4 (in_amount input)
      in if external_id \<noteq> None \<and> external_id \<in> set (map p_external_id (payments w)) then
           (Inl (DatabaseError ''duplicate key value violates unique constraint''), w)
         else if 10 ^ 19 \<le> \<bar>amount\<bar> then
           (Inl (DatabaseError ''numeric field overflow''), w)
         else if amount \<le> 0 then
           (Inl (DatabaseError ''new row violates check constraint''), w)
         else
           let payment =
                 \<lparr>p_id = fresh_id (map p_id (payments w)),
                  p_external_id = external_id,
                  p_merchant_id = in_merchant_id input,
                  p_amount = amount,
                  p_currency = toUpperCase (in_currency input),
                  p_status = Pending,
                  p_provider = toLowerCase (in_provider input),
                  p_provider_transaction_id = None,
                  p_description = or_null (in_description input),
                  p_metadata = (case in_metadata input of Some m \<Rightarrow> m | None \<Rightarrow> []),
                  p_webhook_url = or_null (in_webhook_url input),
                  p_created_at = now, p_updated_at = now\<rparr>
           in (Inr payment, w\<lparr>payments := payments w @ [payment]\<rparr>))"

definition getPaymentById :: "uuid \<Rightarrow> world \<Rightarrow> Payment option" where
  "getPaymentById i w = find (\<lambda>p. p_id p = i) (payments w)"

text \<open>\<open>UPDATE payments SET ... WHERE id = $n\<close>; the trigger sets \<open>updated_at\<close>.\<close>

definition update_payment :: "uuid \<Rightarrow> (Payment \<Rightarrow> Payment) \<Rightarrow> world \<Rightarrow> world" where
  "update_payment i f w = w\<lparr>payments := map (\<lambda>p. if p_id p = i then f p else p) (payments w)\<rparr>"

definition updatePayment ::
  "int \<Rightarrow> uuid \<Rightarrow> UpdatePaymentInput \<Rightarrow> world \<Rightarrow> Payment option \<times> world" where
  "updatePayment now i input w =
     (if up_status input = None \<and> up_provider_transaction_id input = None \<and> up_metadata input = None
      then (getPaymentById i w, w)
      else
        let w' = update_payment i
                   (\<lambda>p. p\<lparr>p_status := (case up_status input of Some s \<Rightarrow> s | None \<Rightarrow> p_status p),
                          p_provider_transaction_id :=
                            (case up_provider_transaction_id input of
                               Some t \<Rightarrow> Some t | None \<Rightarrow> p_provider_transaction_id p),
                          p_metadata :=
                            (case up_metadata input of
                               Some m \<Rightarrow> fold (\<lambda>(k, v). AList.update k v) m (p_metadata p)
                             | None \<Rightarrow> p_metadata p),
                          p_updated_at := now\<rparr>) w
        in (getPaymentById i w', w'))"

subsection \<open>models/transaction.ts\<close>

record CreateTransactionInput =
  ct_payment_id :: uuid
  ct_status :: string
  ct_provider_response :: "(string \<times> json) list option"
  ct_error_message :: "string option"

definition createTransaction :: "int \<Rightarrow> CreateTransactionInput \<Rightarrow> world \<Rightarrow> Transaction \<times> world" where
  "createTransaction now input w =
     (let t = \<lparr>t_id = fresh_id (map t_id (transactions w)),
                t_payment_id = ct_payment_id input,
                t_status = ct_status input,
                t_provider_response = ct_provider_response input,
                t_error_message = or_null (ct_error_message input),
                t_created_at = now\<rparr>
      in (t, w\<lparr>transactions := transactions w @ [t]\<rparr>))"

subsection \<open>services/audit.service.ts and models/audit-log.ts\<close>

definition audit_log ::
  "int \<Rightarrow> string \<Rightarrow> uuid \<Rightarrow> string \<Rightarrow> (string \<times> json) list option \<Rightarrow>
   (string \<times> json) list option \<Rightarrow> AuditContext option \<Rightarrow> world \<Rightarrow> world" where
  "audit_log now entityType entityId action oldValue newValue ctx w =
     w\<lparr>audit_logs := audit_logs w @
        [\<lparr>a_id = fresh_id (map a_id (audit_logs w)),
          a_entity_type = entityType, a_entity_id = entityId, a_action = action,
          a_old_value = oldValue, a_new_value = newValue,
          a_actor = (case ctx of Some c \<Rightarrow> or_null (actor c) | None \<Rightarrow> None),
          a_actor_type =
            (case (case ctx of Some c \<Rightarrow> or_null (actor_type c) | None \<Rightarrow> None) of
               Some t \<Rightarrow> t | None \<Rightarrow> ''system''),
          a_ip_address = (case ctx of Some c \<Rightarrow> or_null (ip_address c) | None \<Rightarrow> None),
          a_user_agent = (case ctx of Some c \<Rightarrow> or_null (user_agent c) | None \<Rightarrow> None),
          a_created_at = now\<rparr>]\<rparr>"

definition logPaymentCreated ::
  "int \<Rightarrow> uuid \<Rightarrow> (string \<times> json) list \<Rightarrow> AuditContext option \<Rightarrow> world \<Rightarrow> world" where
  "logPaymentCreated now paymentId paymentData ctx w =
     audit_log now ''payment'' paymentId ''created'' None (Some paymentData) ctx w"

definition logPaymentStatusChanged ::
  "int \<Rightarrow> uuid \<Rightarrow> string \<Rightarrow> string \<Rightarrow> AuditContext option \<Rightarrow> world \<Rightarrow> world" where
  "logPaymentStatusChanged now paymentId oldStatus newStatus ctx w =
     audit_log now ''payment'' paymentId ''status_changed''
       (Some [(''status'', JStr oldStatus)]) (Some [(''status'', JStr newStatus)]) ctx w"

definition logRefundCreated ::
  "int \<Rightarrow> uuid \<Rightarrow> (string \<times> json) list \<Rightarrow> AuditContext option \<Rightarrow> world \<Rightarrow> world" where
  "logRefundCreated now refundId refundData ctx w =
     audit_log now ''refund'' refundId ''created'' None (Some refundData) ctx w"

definition logRefundStatusChanged ::
  "int \<Rightarrow> uuid \<Rightarrow> string \<Rightarrow> string \<Rightarrow> AuditContext option \<Rightarrow> world \<Rightarrow> world" where
  "logRefundStatusChanged now refundId oldStatus newStatus ctx w =
     audit_log now ''refund'' refundId ''status_changed''
       (Some [(''status'', JStr oldStatus)]) (Some [(''status'', JStr newStatus)]) ctx w"

subsection \<open>providers/index.ts\<close>

definition getProvider :: "env \<Rightarrow> string \<Rightarrow> error + BaseProvider" where
  "getProvider e n =
     (case map_of (providers e) (toLowerCase n) of
        None \<Rightarrow> Inl (ProviderError (''Unknown provider: '' @ n))
      | Some provider \<Rightarrow> Inr provider)"



section \<open>Payment service (services/payment.service.ts)\<close>

text \<open>
  One call of a service reads the clock once: \<open>now\<close>. Statements that touch the
  database succeed unless a constraint of the schema refuses them; what can throw is
  a constraint, the provider registry, a provider, and the URL check of
  \<open>queueWebhook\<close>.
\<close>

record PaymentSagaContext =
  sc_input :: PaymentInput
  sc_payment :: "Payment option"
  sc_providerResponse :: "(string \<times> json) list option"
  sc_auditContext :: "AuditContext option"


definition create_payment_record :: "int \<Rightarrow> (PaymentSagaContext, world) SagaStep" where
  "create_payment_record now =
     \<lparr>name = ''create_payment_record'',
      execute =
        (\<lambda>ctx w.
           case createPayment now (sc_input ctx) w of
             (Inl err, w') \<Rightarrow> (Inl err, w')
           | (Inr payment, w1) \<Rightarrow>
               let (t, w2) = createTransaction now
                               \<lparr>ct_payment_id = p_id payment, ct_status = ''pending'',
                                ct_provider_response = Some [(''message'', JStr ''Payment created'')],
                                ct_error_message = None\<rparr> w1;
                   w3 = logPaymentCreated now (p_id payment)
                          [(''amount'', JStr (numeric_text (p_amount payment))),
                           (''currency'', JStr (p_currency payment)),
                           (''provider'', JStr (p_provider payment))]
                          (sc_auditContext ctx) w2
               in (Inr (ctx\<lparr>sc_payment := Some payment\<rparr>), w3)),
      compensate =
        Some (\<lambda>ctx w.
           case sc_payment ctx of
             None \<Rightarrow> (Inr (), w)
           | Some payment \<Rightarrow>
               let (u, w1) = updatePayment now (p_id payment)
                               \<lparr>up_status = Some Failed, up_provider_transaction_id = None,
                                up_metadata = None\<rparr> w;
                   w2 = logPaymentStatusChanged now (p_id payment) ''pending'' ''failed''
                          (sc_auditContext ctx) w1
               in (Inr (), w2))\<rparr>"

text \<open>The mapping of the provider's answer to the status of the payment.\<close>

definition newStatus_of :: "PaymentResponse \<Rightarrow> PaymentStatus" where
  "newStatus_of response =
     (if pr_success response
      then (if pr_status response = ''completed'' then Completed else Pending)
      else Failed)"

definition request_of :: "PaymentSagaContext \<Rightarrow> Payment \<Rightarrow> PaymentRequest" where
  "request_of ctx payment =
     \<lparr>preq_amount = in_amount (sc_input ctx), preq_currency = in_currency (sc_input ctx),
      preq_paymentId = p_id payment, preq_description = in_description (sc_input ctx),
      preq_metadata = in_metadata (sc_input ctx)\<rparr>"

definition process_with_provider :: "env \<Rightarrow> int \<Rightarrow> (PaymentSagaContext, world) SagaStep" where
  "process_with_provider e now =
     \<lparr>name = ''process_with_provider'',
      execute =
        (\<lambda>ctx w.
           case sc_payment ctx of
             None \<Rightarrow> (Inl (Error ''Payment not found in context''), w)
           | Some payment \<Rightarrow>
               let (u, w1) = updatePayment now (p_id payment)
                               \<lparr>up_status = Some Processing, up_provider_transaction_id = None,
                                up_metadata = None\<rparr> w;
                   (t, w2) = createTransaction now
                               \<lparr>ct_payment_id = p_id payment, ct_status = ''processing'',
                                ct_provider_response = None, ct_error_message = None\<rparr> w1
               in case getProvider e (in_provider (sc_input ctx)) of
                    Inl err \<Rightarrow> (Inl err, w2)
                  | Inr provider \<Rightarrow>
                      (case prov_processPayment provider (request_of ctx payment) of
                         Inl err \<Rightarrow> (Inl err, w2)
                       | Inr response \<Rightarrow>
                           let newStatus = newStatus_of response;
                               (updated, w3) = updatePayment now (p_id payment)
                                   \<lparr>up_status = Some newStatus,
                                    up_provider_transaction_id = Some (pr_transactionId response),
                                    up_metadata = None\<rparr> w2;
                               (t', w4) = createTransaction now
                                   \<lparr>ct_payment_id = p_id payment, ct_status = status_text newStatus,
                                    ct_provider_response = Some (pr_rawResponse response),
                                    ct_error_message = pr_errorMessage response\<rparr> w3;
                               w5 = logPaymentStatusChanged now (p_id payment) ''processing''
                                      (status_text newStatus) (sc_auditContext ctx) w4
                           in (Inr (ctx\<lparr>sc_providerResponse := Some (pr_rawResponse response),
                                         sc_payment := Some (case updated of Some p \<Rightarrow> p
                                                                         | None \<Rightarrow> payment)\<rparr>),
                               w5))),
      compensate = None\<rparr>"

definition send_webhook :: "env \<Rightarrow> int \<Rightarrow> (PaymentSagaContext, world) SagaStep" where
  "send_webhook e now =
     \<lparr>name = ''send_webhook'',
      execute =
        (\<lambda>ctx w.
           case sc_payment ctx of
             None \<Rightarrow> (Inl (Error ''Payment not found in context''), w)
           | Some payment \<Rightarrow>
               (case or_null (p_webhook_url payment) of
                  None \<Rightarrow> (Inr ctx, w)
                | Some url \<Rightarrow>
                    (case queueWebhook e now
                            \<lparr>q_payment_id = Some (p_id payment),
                             q_event_type = ''payment.'' @ status_text (p_status payment),
                             q_url = url,
                             q_payload =
                               [(''id'', JNum (of_nat (p_id payment))),
                                (''external_id'',
                                   (case p_external_id payment of Some x \<Rightarrow> JStr x | None \<Rightarrow> JNull)),
                                (''amount'', JStr (numeric_text (p_amount payment))),
                                (''currency'', JStr (p_currency payment)),
                                (''status'', JStr (status_text (p_status payment))),
                                (''provider'', JStr (p_provider payment)),
                                (''provider_transaction_id'',
                                   (case p_provider_transaction_id payment of
                                      Some x \<Rightarrow> JStr x | None \<Rightarrow> JNull)),
                                (''created_at'', JStr (toISOString e (p_created_at payment)))]\<rparr> w of
                       (Inl err, w') \<Rightarrow> (Inl err, w')
                     | (Inr ev, w') \<Rightarrow> (Inr ctx, w')))),
      compensate = None\<rparr>"

definition createPaymentSaga :: "env \<Rightarrow> int \<Rightarrow> (PaymentSagaContext, world) SagaStep list" where
  "createPaymentSaga e now =
     [create_payment_record now, process_with_provider e now, send_webhook e now]"








text \<open>
  The webhook URL of a payment is absent (or empty), or passes the URL check: then
  enqueueing the merchant webhook of the payment does not throw.
\<close>

definition webhook_url_ok :: "env \<Rightarrow> string option \<Rightarrow> bool" where
  "webhook_url_ok e url =
     (case or_null url of None \<Rightarrow> True | Some u \<Rightarrow> valid (validateWebhookUrl e u))"

definition empty_world :: world where
  "empty_world =
     \<lparr>webhook_events = [], channel = True, queue = [], timers = [], requests = [],
      payments = [], transactions = [], refunds = [], audit_logs = []\<rparr>"

definition example_payment_input :: "rat \<Rightarrow> string option \<Rightarrow> PaymentInput" where
  "example_payment_input a url =
     \<lparr>in_external_id = None, in_merchant_id = ''m1'', in_amount = a, in_currency = ''usd'',
      in_provider = ''Stripe'', in_description = None, in_metadata = None, in_webhook_url = url\<rparr>"




definition example_payment :: "rat \<Rightarrow> Payment" where
  "example_payment a =
     \<lparr>p_id = 1, p_external_id = None, p_merchant_id = ''m1'', p_amount = round4 a,
      p_currency = ''USD'', p_status = Pending, p_provider = ''stripe'',
      p_provider_transaction_id = None, p_description = None, p_metadata = [],
      p_webhook_url = None, p_created_at = 5, p_updated_at = 5\<rparr>"


section \<open>Refunds (models/refund.ts, services/refund.service.ts)\<close>

record CreateRefundInput =
  cr_payment_id :: uuid
  cr_amount :: rat
  cr_reason :: "string option"

record UpdateRefundInput =
  ur_status :: "RefundStatus option"
  ur_provider_refund_id :: "string option"


text \<open>
  The \<open>INSERT\<close> of \<open>createRefund\<close> (models/refund.ts): the amount is rounded to the
  column, which refuses a value that does not fit or is not positive.
\<close>

definition createRefund :: "int \<Rightarrow> CreateRefundInput \<Rightarrow> world \<Rightarrow> (error + Refund) \<times> world" where
  "createRefund now input w =
     (let amount = round4 (cr_amount input)
      in if 10 ^ 19 \<le> \<bar>amount\<bar> then (Inl (DatabaseError ''numeric field overflow''), w)
         else if amount \<le> 0 then (Inl (DatabaseError ''new row violates check constraint''), w)
         else
           let refund = \<lparr>r_id = fresh_id (map r_id (refunds w)),
                          r_payment_id = cr_payment_id input,
                          r_amount = amount, r_status = RPending,
                          r_reason = or_null (cr_reason input),
                          r_provider_refund_id = None,
                          r_created_at = now, r_updated_at = now\<rparr>
           in (Inr refund, w\<lparr>refunds := refunds w @ [refund]\<rparr>))"

definition getRefundById :: "uuid \<Rightarrow> world \<Rightarrow> Refund option" where
  "getRefundById i w = find (\<lambda>r. r_id r = i) (refunds w)"

definition update_refund :: "uuid \<Rightarrow> (Refund \<Rightarrow> Refund) \<Rightarrow> world \<Rightarrow> world" where
  "update_refund i f w = w\<lparr>refunds := map (\<lambda>r. if r_id r = i then f r else r) (refunds w)\<rparr>"

definition updateRefund :: "int \<Rightarrow> uuid \<Rightarrow> UpdateRefundInput \<Rightarrow> world \<Rightarrow> Refund option \<times> world" where
  "updateRefund now i input w =
     (if ur_status input = None \<and> ur_provider_refund_id input = None then (getRefundById i w, w)
      else
        let w' = update_refund i
                   (\<lambda>r. r\<lparr>r_status := (case ur_status input of Some s \<Rightarrow> s | None \<Rightarrow> r_status r),
                          r_provider_refund_id :=
                            (case ur_provider_refund_id input of
                               Some x \<Rightarrow> Some x | None \<Rightarrow> r_provider_refund_id r),
                          r_updated_at := now\<rparr>) w
        in (getRefundById i w', w'))"

text \<open>\<open>SELECT COALESCE(SUM(amount), 0) ... WHERE payment_id = $1 AND status = ...\<close>.\<close>

definition sum_refunds :: "uuid \<Rightarrow> RefundStatus \<Rightarrow> world \<Rightarrow> int" where
  "sum_refunds paymentId s w =
     sum_list (map r_amount (filter (\<lambda>r. r_payment_id r = paymentId \<and> r_status r = s) (refunds w)))"

definition getTotalRefundedAmount :: "uuid \<Rightarrow> world \<Rightarrow> rat" where
  "getTotalRefundedAmount paymentId w = amount_of (sum_refunds paymentId RCompleted w)"

definition getPendingRefundsAmount :: "uuid \<Rightarrow> world \<Rightarrow> rat" where
  "getPendingRefundsAmount paymentId w = amount_of (sum_refunds paymentId RPending w)"




text \<open>\<open>getRefundableAmount\<close>.\<close>

record Refundable =
  paymentAmount :: rat
  totalRefunded :: rat
  pendingRefunds :: rat
  availableForRefund :: rat

definition getRefundableAmount :: "uuid \<Rightarrow> world \<Rightarrow> error + Refundable" where
  "getRefundableAmount paymentId w =
     (case getPaymentById paymentId w of
        None \<Rightarrow> Inl (RefundValidationError ''Payment not found'')
      | Some payment \<Rightarrow>
          Inr \<lparr>paymentAmount = amount_of (p_amount payment),
               totalRefunded = getTotalRefundedAmount paymentId w,
               pendingRefunds = getPendingRefundsAmount paymentId w,
               availableForRefund =
                 max 0 (amount_of (p_amount payment) - getTotalRefundedAmount paymentId w -
                        getPendingRefundsAmount paymentId w)\<rparr>)"








section \<open>Idempotency (services/idempotency.service.ts, middleware/idempotency.ts)\<close>

text \<open>
  The two tiers. A row of the table \<open>idempotency_keys\<close> and a value cached in Redis
  have the same fields; the record \<open>startProcessing\<close> caches has no \<open>response\<close>, no
  \<open>status_code\<close> and no \<open>created_at\<close>. \<open>JSON.parse\<close> of what \<open>JSON.stringify\<close>
  wrote gives back the fields that are read afterwards, so the cache holds the record
  itself, with the instant at which Redis drops it. Reads and writes of the two
  stores succeed, and column lengths are not checked.
\<close>

datatype IdempotencyStatus = IProcessing | ICompleted

record IdempotencyRecord =
  i_key :: string
  i_merchant_id :: string
  i_request_hash :: string
  i_request_path :: string
  i_request_method :: string
  i_response :: "json option"
  i_status_code :: "int option"
  i_status :: IdempotencyStatus
  i_created_at :: "int option"
  i_expires_at :: int

record IdempotencyResult =
  ir_exists :: bool
  ir_isProcessing :: bool
  ir_response :: "json option"
  ir_statusCode :: "int option"

record idempotency_store =
  redis :: "string \<Rightarrow> (IdempotencyRecord \<times> int) option"
  idempotency_keys :: "IdempotencyRecord list"

record idempotency_config =
  ttlSeconds :: int
  hashString :: "string \<Rightarrow> string"
  stringify :: "json \<Rightarrow> string"

text \<open>
  Redis: \<open>GET\<close>, \<open>SETEX\<close> with a time to live in seconds, \<open>TTL\<close> (the remaining
  time in seconds, rounded; \<open>-2\<close> without the key) and \<open>DEL\<close>.
\<close>

definition redis_get :: "int \<Rightarrow> string \<Rightarrow> idempotency_store \<Rightarrow> IdempotencyRecord option" where
  "redis_get now k s =
     (case redis s k of
        None \<Rightarrow> None
      | Some (v, expiry) \<Rightarrow> if now < expiry then Some v else None)"

definition redis_setex ::
  "int \<Rightarrow> string \<Rightarrow> int \<Rightarrow> IdempotencyRecord \<Rightarrow> idempotency_store \<Rightarrow> idempotency_store" where
  "redis_setex now k ttl v s = s\<lparr>redis := (redis s)(k \<mapsto> (v, now + ttl * 1000))\<rparr>"

definition redis_ttl :: "int \<Rightarrow> string \<Rightarrow> idempotency_store \<Rightarrow> int" where
  "redis_ttl now k s =
     (case redis s k of
        None \<Rightarrow> - 2
      | Some (v, expiry) \<Rightarrow> if now < expiry then (expiry - now + 500) div 1000 else - 2)"

definition redis_del :: "string \<Rightarrow> idempotency_store \<Rightarrow> idempotency_store" where
  "redis_del k s = s\<lparr>redis := (redis s)(k := None)\<rparr>"

text \<open>
  \<open>SELECT * FROM idempotency_keys WHERE key = $1 AND merchant_id = $2 AND
  expires_at > NOW()\<close>, and its first row.
\<close>

definition select_unexpired ::
  "int \<Rightarrow> string \<Rightarrow> string \<Rightarrow> idempotency_store \<Rightarrow> IdempotencyRecord option" where
  "select_unexpired now k merchantId s =
     find (\<lambda>r. i_key r = k \<and> i_merchant_id r = merchantId \<and> now < i_expires_at r)
       (idempotency_keys s)"

text \<open>\<open>x || undefined\<close> on an optional number: zero is falsy.\<close>

definition or_undefined :: "int option \<Rightarrow> int option" where
  "or_undefined x = (case x of Some n \<Rightarrow> if n = 0 then None else Some n | None \<Rightarrow> None)"

definition getRedisKey :: "string \<Rightarrow> string \<Rightarrow> string" where
  "getRedisKey k merchantId = ''idempotency:'' @ merchantId @ '':'' @ k"

definition cacheRecord :: "int \<Rightarrow> IdempotencyRecord \<Rightarrow> idempotency_store \<Rightarrow> idempotency_store" where
  "cacheRecord now r s =
     (let redisKey = getRedisKey (i_key r) (i_merchant_id r);
          ttl = max 0 ((i_expires_at r - now) div 1000)
      in if ttl > 0 then redis_setex now redisKey ttl r s else s)"

definition conflict_message :: string where
  "conflict_message = ''Idempotency key has already been used with different request parameters''"

text \<open>What \<open>check\<close> returns for a record whose hash is the submitted one.\<close>

definition result_of :: "IdempotencyRecord \<Rightarrow> IdempotencyResult" where
  "result_of r =
     (if i_status r = IProcessing then
        \<lparr>ir_exists = True, ir_isProcessing = True, ir_response = None, ir_statusCode = None\<rparr>
      else
        \<lparr>ir_exists = True, ir_isProcessing = False, ir_response = i_response r,
         ir_statusCode = or_undefined (i_status_code r)\<rparr>)"

text \<open>\<open>IdempotencyService.check\<close>.\<close>

definition IdempotencyService_check ::
  "int \<Rightarrow> string \<Rightarrow> string \<Rightarrow> string \<Rightarrow> idempotency_store \<Rightarrow>
   (error + IdempotencyResult) \<times> idempotency_store" where
  "IdempotencyService_check now k merchantId requestHash s =
     (case redis_get now (getRedisKey k merchantId) s of
        Some cached \<Rightarrow>
          if i_request_hash cached \<noteq> requestHash then
            (Inl (IdempotencyConflictError conflict_message), s)
          else (Inr (result_of cached), s)
      | None \<Rightarrow>
          (case select_unexpired now k merchantId s of
             Some r \<Rightarrow>
               if i_request_hash r \<noteq> requestHash then
                 (Inl (IdempotencyConflictError conflict_message), s)
               else (Inr (result_of r), cacheRecord now r s)
           | None \<Rightarrow>
               (Inr \<lparr>ir_exists = False, ir_isProcessing = False, ir_response = None,
                     ir_statusCode = None\<rparr>, s)))"

text \<open>
  \<open>IdempotencyService.startProcessing\<close>. The \<open>INSERT ... ON CONFLICT (key) DO
  NOTHING\<close> adds no row when the key, the primary key of the table, is taken. The
  \<open>return\<close> for a row that is already there leaves the callback of \<open>withLock\<close>
  only: the record is cached in Redis all the same.
\<close>

definition IdempotencyService_startProcessing ::
  "idempotency_config \<Rightarrow> int \<Rightarrow> string \<Rightarrow> string \<Rightarrow> string \<Rightarrow> string \<Rightarrow> string \<Rightarrow>
   idempotency_store \<Rightarrow> (error + unit) \<times> idempotency_store" where
  "IdempotencyService_startProcessing c now k merchantId requestHash requestPath requestMethod s =
     (let expiresAt = now + ttlSeconds c * 1000;
          cached = \<lparr>i_key = k, i_merchant_id = merchantId, i_request_hash = requestHash,
                    i_request_path = requestPath, i_request_method = requestMethod,
                    i_response = None, i_status_code = None, i_status = IProcessing,
                    i_created_at = None, i_expires_at = expiresAt\<rparr>
      in case select_unexpired now k merchantId s of
           Some r \<Rightarrow>
             if i_request_hash r \<noteq> requestHash then
               (Inl (IdempotencyConflictError conflict_message), s)
             else (Inr (), redis_setex now (getRedisKey k merchantId) (ttlSeconds c) cached s)
         | None \<Rightarrow>
             let s1 = (if k \<in> set (map i_key (idempotency_keys s)) then s
                       else s\<lparr>idempotency_keys :=
                                idempotency_keys s @ [cached\<lparr>i_created_at := Some now\<rparr>]\<rparr>)
             in (Inr (), redis_setex now (getRedisKey k merchantId) (ttlSeconds c) cached s1))"

text \<open>\<open>IdempotencyService.complete\<close>.\<close>

definition IdempotencyService_complete ::
  "int \<Rightarrow> string \<Rightarrow> string \<Rightarrow> json \<Rightarrow> int \<Rightarrow> idempotency_store \<Rightarrow> idempotency_store" where
  "IdempotencyService_complete now k merchantId response statusCode s =
     (let s1 = s\<lparr>idempotency_keys :=
                   map (\<lambda>r. if i_key r = k \<and> i_merchant_id r = merchantId
                             then r\<lparr>i_status := ICompleted, i_response := Some response,
                                    i_status_code := Some statusCode\<rparr>
                             else r)
                     (idempotency_keys s)\<rparr>;
          redisKey = getRedisKey k merchantId
      in case redis_get now redisKey s1 of
           None \<Rightarrow> s1
         | Some cached \<Rightarrow>
             let ttl = redis_ttl now redisKey s1
             in if ttl > 0 then
                  redis_setex now redisKey ttl
                    (cached\<lparr>i_status := ICompleted, i_response := Some response,
                            i_status_code := Some statusCode\<rparr>) s1
                else s1)"

text \<open>\<open>IdempotencyService.remove\<close>.\<close>

definition IdempotencyService_remove ::
  "string \<Rightarrow> string \<Rightarrow> idempotency_store \<Rightarrow> idempotency_store" where
  "IdempotencyService_remove k merchantId s =
     redis_del (getRedisKey k merchantId)
       (s\<lparr>idempotency_keys :=
            filter (\<lambda>r. \<not> (i_key r = k \<and> i_merchant_id r = merchantId)) (idempotency_keys s)\<rparr>)"

text \<open>\<open>generateRequestHash\<close>; a body that is \<open>undefined\<close> is left out of the object.\<close>

definition generateRequestHash ::
  "idempotency_config \<Rightarrow> json option \<Rightarrow> string \<Rightarrow> string \<Rightarrow> string" where
  "generateRequestHash c body path requestMethod =
     hashString c
       (stringify c
          (JObj ((case body of Some b \<Rightarrow> [(''body'', b)] | None \<Rightarrow> []) @
                 [(''path'', JStr path), (''method'', JStr requestMethod)])))"

text \<open>
  The middleware. It is a \<open>preHandler\<close> hook: the route handler runs when the hook
  returns without having sent a reply, so the first component of the result is the
  reply sent, or \<open>None\<close> when the handler runs. The second is the request, on which
  the hook sets \<open>idempotencyKey\<close>.
\<close>

record FastifyRequest =
  fr_method :: string
  fr_header_idempotency_key :: "string option"
  fr_merchantId :: "string option"
  fr_body :: "json option"
  fr_url :: string
  fr_idempotencyKey :: "string option"

datatype reply = Reply int "json option"

definition conflict_body :: "string \<Rightarrow> json" where
  "conflict_body m = JObj [(''error'', JStr ''Conflict''), (''message'', JStr m)]"

definition processing_body :: json where
  "processing_body =
     conflict_body ''A request with this idempotency key is currently being processed''"

text \<open>The \<open>catch\<close> block of the middleware.\<close>

definition middleware_catch ::
  "error \<Rightarrow> FastifyRequest \<Rightarrow> idempotency_store \<Rightarrow>
   reply option \<times> FastifyRequest \<times> idempotency_store" where
  "middleware_catch err request s =
     (case err of
        IdempotencyConflictError m \<Rightarrow> (Some (Reply 409 (Some (conflict_body m))), request, s)
      | _ \<Rightarrow> (None, request, s))"

definition idempotencyMiddleware ::
  "idempotency_config \<Rightarrow> int \<Rightarrow> FastifyRequest \<Rightarrow> idempotency_store \<Rightarrow>
   reply option \<times> FastifyRequest \<times> idempotency_store" where
  "idempotencyMiddleware c now request s =
     (if fr_method request \<notin> set [''POST'', ''PUT'', ''PATCH''] then (None, request, s)
      else
        case or_null (fr_header_idempotency_key request) of
          None \<Rightarrow> (None, request, s)
        | Some idempotencyKey \<Rightarrow>
            (case or_null (fr_merchantId request) of
               None \<Rightarrow>
                 (Some (Reply 401
                    (Some (JObj [(''error'', JStr ''Unauthorized''),
                                 (''message'', JStr ''Merchant ID not found'')]))),
                  request, s)
             | Some merchantId \<Rightarrow>
                 let request1 = request\<lparr>fr_idempotencyKey := Some idempotencyKey\<rparr>;
                     requestHash = generateRequestHash c (fr_body request) (fr_url request)
                                     (fr_method request)
                 in case IdempotencyService_check now idempotencyKey merchantId requestHash s of
                      (Inl err, s1) \<Rightarrow> middleware_catch err request1 s1
                    | (Inr result, s1) \<Rightarrow>
                        if ir_exists result then
                          if ir_isProcessing result then
                            (Some (Reply 409 (Some processing_body)), request1, s1)
                          else
                            (Some (Reply (case or_undefined (ir_statusCode result) of
                                            Some n \<Rightarrow> n | None \<Rightarrow> 200)
                                     (ir_response result)),
                             request1, s1)
                        else
                          (case IdempotencyService_startProcessing c now idempotencyKey
                                  merchantId requestHash (fr_url request) (fr_method request)
                                  s1 of
                             (Inl err, s2) \<Rightarrow> middleware_catch err request1 s2
                           | (Inr u, s2) \<Rightarrow> (None, request1, s2))))"

text \<open>\<open>idempotencyComplete\<close> and \<open>idempotencyRemove\<close>.\<close>

definition idempotencyComplete ::
  "int \<Rightarrow> FastifyRequest \<Rightarrow> json \<Rightarrow> int \<Rightarrow> idempotency_store \<Rightarrow> idempotency_store" where
  "idempotencyComplete now request response statusCode s =
     (case (or_null (fr_idempotencyKey request), or_null (fr_merchantId request)) of
        (Some k, Some merchantId) \<Rightarrow>
          IdempotencyService_complete now k merchantId response statusCode s
      | _ \<Rightarrow> s)"

definition idempotencyRemove :: "FastifyRequest \<Rightarrow> idempotency_store \<Rightarrow> idempotency_store" where
  "idempotencyRemove request s =
     (case (or_null (fr_idempotencyKey request), or_null (fr_merchantId request)) of
        (Some k, Some merchantId) \<Rightarrow> IdempotencyService_remove k merchantId s
      | _ \<Rightarrow> s)"

text \<open>
  The record \<open>check\<close> finds for a merchant and a key: the cached one, or without it
  the unexpired row of the table.
\<close>

definition stored_record ::
  "int \<Rightarrow> string \<Rightarrow> string \<Rightarrow> idempotency_store \<Rightarrow> IdempotencyRecord option" where
  "stored_record now k merchantId s =
     (case redis_get now (getRedisKey k merchantId) s of
        Some cached \<Rightarrow> Some cached
      | None \<Rightarrow> select_unexpired now k merchantId s)"

text \<open>The status code replayed for a completed record.\<close>

definition replayed_code :: "IdempotencyRecord \<Rightarrow> int" where
  "replayed_code r = (case i_status_code r of Some n \<Rightarrow> if n = 0 then 200 else n | None \<Rightarrow> 200)"

text \<open>A configuration, a store without records and two requests with the same key.\<close>

definition example_config :: idempotency_config where
  "example_config =
     \<lparr>ttlSeconds = 86400, hashString = (\<lambda>s. s),
      stringify = (\<lambda>j. case j of
                          JObj ((k, JObj ((a, JNum n) # bs)) # xs) \<Rightarrow>
                            (if n = 100 then ''{amount:100}'' else ''{amount:other}'')
                        | _ \<Rightarrow> ''{}'')\<rparr>"

definition empty_store :: idempotency_store where
  "empty_store = \<lparr>redis = (\<lambda>k. None), idempotency_keys = []\<rparr>"

definition example_request :: "rat \<Rightarrow> FastifyRequest" where
  "example_request a =
     \<lparr>fr_method = ''POST'', fr_header_idempotency_key = Some ''K'', fr_merchantId = Some ''m1'',
      fr_body = Some (JObj [(''amount'', JNum a)]), fr_url = ''/api/v1/payments'',
      fr_idempotencyKey = None\<rparr>"

definition example_response :: json where
  "example_response = JObj [(''id'', JNum 1), (''status'', JStr ''completed'')]"

definition store_processing :: idempotency_store where
  "store_processing =
     snd (snd (idempotencyMiddleware example_config 1000 (example_request 100) empty_store))"

definition store_completed :: idempotency_store where
  "store_completed =
     idempotencyComplete 2000 ((example_request 100)\<lparr>fr_idempotencyKey := Some ''K''\<rparr>)
       example_response 201 store_processing"

section \<open>Properties of the webhook service\<close>

lemma fold_max_ge: "a \<le> fold max ids (a::nat)"
  by (induction ids arbitrary: a) (auto intro: order_trans[OF max.cobounded2])

lemma fold_max_mem: "x \<in> set ids \<Longrightarrow> x \<le> fold max ids (a::nat)"
proof (induction ids arbitrary: a)
  case Nil
  then show ?case by simp
next
  case (Cons y ys)
  show ?case
  proof (cases "x = y")
    case True
    have "y \<le> max y a" by simp
    also have "\<dots> \<le> fold max ys (max y a)" by (rule fold_max_ge)
    finally show ?thesis using True by simp
  next
    case False
    with Cons show ?thesis by simp
  qed
qed

lemma fresh_id_notin: "fresh_id ids \<notin> set ids"
proof
  assume "fresh_id ids \<in> set ids"
  then have "fresh_id ids \<le> fold max ids 0" by (rule fold_max_mem)
  then show False by (simp add: fresh_id_def)
qed

lemma events_publishToQueue [simp]: "webhook_events (publishToQueue r w) = webhook_events w"
  by (simp add: publishToQueue_def)

lemma events_fold_publish [simp]: "webhook_events (fold publishToQueue rs w) = webhook_events w"
  by (induction rs arbitrary: w) simp_all

lemma events_sendWebhook [simp]: "webhook_events (sendWebhook e now r w) = webhook_events w"
  by (simp add: sendWebhook_def Let_def)

lemma find_Some_mem: "find P xs = Some x \<Longrightarrow> x \<in> set xs \<and> P x"
  by (induction xs) (auto split: if_splits)

lemma getWebhookById_mem:
  "getWebhookById i w = Some r \<Longrightarrow> r \<in> set (webhook_events w) \<and> w_id r = i"
  unfolding getWebhookById_def by (drule find_Some_mem) simp

lemma getWebhookById_sendWebhook [simp]:
  "getWebhookById i (sendWebhook e now r w) = getWebhookById i w"
  by (simp add: getWebhookById_def)

lemma find_map_update:
  assumes "\<And>r. w_id (f r) = w_id r"
  shows "find (\<lambda>r. w_id r = i) (map (\<lambda>r. if w_id r = j then f r else r) rows) =
         (if i = j then map_option f (find (\<lambda>r. w_id r = i) rows) else find (\<lambda>r. w_id r = i) rows)"
  using assms by (induction rows) auto

lemma getWebhookById_update:
  assumes "\<And>r. w_id (f r) = w_id r"
  shows "getWebhookById i (update_webhook j f w) =
         (if i = j then map_option f (getWebhookById i w) else getWebhookById i w)"
  unfolding getWebhookById_def update_webhook_def using find_map_update[OF assms] by simp






lemma hooks_inv_timers [simp]: "hooks_inv (w\<lparr>timers := t\<rparr>) = hooks_inv w"
  by (simp add: hooks_inv_def)







lemma processWebhook_failure:
  assumes "getWebhookById i w = Some r" and "w_status r = WPending" and "delivery_failed outcome"
  shows "processWebhook e now outcome i w =
         (False, handleFailure e now r (failure_message outcome) (sendWebhook e now r w))"
  using assms
  by (auto simp: processWebhook_def delivery_failed_def failure_message_def Let_def split: sum.splits)

lemma processWebhook_success:
  assumes "getWebhookById i w = Some r" and "w_status r = WPending" and "outcome = Inr response"
      and "ok response"
  shows "processWebhook e now outcome i w = (True, markAsSent now i (sendWebhook e now r w))"
  using assms by (simp add: processWebhook_def Let_def)

lemma retry_delay_schedule:
  assumes "retryDelays e \<noteq> []" and "0 \<notin> set (retryDelays e)" and "0 \<le> a"
  shows "retry_delay e (a + 1) = retryDelays e ! min (nat a) (length (retryDelays e) - 1)"
proof -
  let ?n = "length (retryDelays e)"
  let ?k = "min (nat a) (?n - 1)"
  obtain m where m: "?n = Suc m" using assms(1) by (cases "retryDelays e") auto
  have k: "?k < ?n" unfolding m by (simp add: min_def)
  have idx: "min (a + 1 - 1) (int ?n - 1) = int ?k"
    unfolding m using assms(3) by (simp add: min_def nat_le_iff)
  have "js_index (retryDelays e) (int ?k) = Some (retryDelays e ! ?k)"
    using k by (simp add: js_index_def)
  moreover have "retryDelays e ! ?k \<noteq> 0"
    using assms(2) k nth_mem[of ?k "retryDelays e"] by metis
  ultimately show ?thesis unfolding retry_delay_def idx by simp
qed

lemma handleFailure_last:
  assumes "w_max_attempts r \<le> w_attempts r + 1"
  shows "handleFailure e now r msg w =
         update_webhook (w_id r)
           (\<lambda>x. x\<lparr>w_status := WFailed, w_attempts := w_attempts r + 1, w_last_error := Some msg\<rparr>) w"
  using assms by (simp add: handleFailure_def Let_def)

lemma handleFailure_retry:
  assumes "\<not> w_max_attempts r \<le> w_attempts r + 1"
  shows "handleFailure e now r msg w =
         (let w1 = update_webhook (w_id r)
                     (\<lambda>x. x\<lparr>w_attempts := w_attempts r + 1, w_last_error := Some msg,
                            w_next_retry_at := Some (now + retry_delay e (w_attempts r + 1))\<rparr>) w
          in if channel w then w1\<lparr>timers := timers w @ [(now + retry_delay e (w_attempts r + 1), w_id r)]\<rparr>
             else w1)"
  using assms by (simp add: handleFailure_def Let_def update_webhook_def)

lemma update_webhook_fields [simp]:
  "timers (update_webhook i f w) = timers w"
  "queue (update_webhook i f w) = queue w"
  "requests (update_webhook i f w) = requests w"
  "channel (update_webhook i f w) = channel w"
  by (simp_all add: update_webhook_def)

lemma sendWebhook_fields [simp]:
  "timers (sendWebhook e now r w) = timers w"
  "queue (sendWebhook e now r w) = queue w"
  "channel (sendWebhook e now r w) = channel w"
  by (simp_all add: sendWebhook_def Let_def)

lemma getWebhookById_timers [simp]: "getWebhookById i (w\<lparr>timers := t\<rparr>) = getWebhookById i w"
  by (simp add: getWebhookById_def)

lemma failure_step:
  assumes found: "getWebhookById i w = Some r" and p: "w_status r = WPending"
      and f: "delivery_failed outcome"
      and sched: "retryDelays e \<noteq> []" "0 \<notin> set (retryDelays e)" and a: "0 \<le> w_attempts r"
  shows "\<exists>r'. getWebhookById i (snd (processWebhook e now outcome i w)) = Some r' \<and>
           w_attempts r' = w_attempts r + 1 \<and>
           w_max_attempts r' = w_max_attempts r \<and>
           w_last_error r' = Some (failure_message outcome) \<and>
           (if w_max_attempts r \<le> w_attempts r + 1
            then w_status r' = WFailed \<and> w_next_retry_at r' = w_next_retry_at r \<and>
                 timers (snd (processWebhook e now outcome i w)) = timers w \<and>
                 queue (snd (processWebhook e now outcome i w)) = queue w
            else w_status r' = WPending \<and>
                 w_next_retry_at r' =
                   Some (now + retryDelays e ! min (nat (w_attempts r)) (length (retryDelays e) - 1)) \<and>
                 queue (snd (processWebhook e now outcome i w)) = queue w \<and>
                 timers (snd (processWebhook e now outcome i w)) =
                   (if channel w
                    then timers w @
                         [(now + retryDelays e ! min (nat (w_attempts r)) (length (retryDelays e) - 1), i)]
                    else timers w))"
proof -
  have id: "w_id r = i" using found by (simp add: getWebhookById_mem)
  have pw: "snd (processWebhook e now outcome i w) =
            handleFailure e now r (failure_message outcome) (sendWebhook e now r w)"
    using processWebhook_failure[OF found p f] by simp
  have d: "retry_delay e (w_attempts r + 1) =
           retryDelays e ! min (nat (w_attempts r)) (length (retryDelays e) - 1)"
    by (rule retry_delay_schedule[OF sched a])
  show ?thesis
  proof (cases "w_max_attempts r \<le> w_attempts r + 1")
    case True
    show ?thesis unfolding pw handleFailure_last[OF True]
      using True found id by (simp add: getWebhookById_update)
  next
    case False
    show ?thesis unfolding pw handleFailure_retry[OF False]
      using False found id d p by (simp add: getWebhookById_update Let_def)
  qed
qed


lemma markAsSent_lookup:
  assumes "getWebhookById i w = Some r"
  shows "getWebhookById i (markAsSent now i (sendWebhook e now' r w)) =
         Some (r\<lparr>w_status := WSent, w_sent_at := Some now\<rparr>)"
  using assms by (simp add: markAsSent_def getWebhookById_update)

text \<open>
  Claim C8, as the code has it. An event with no attempts yet and a limit above
  three is delivered four times: three failures at the instants \<open>t1\<close>, \<open>t2\<close>, \<open>t3\<close>
  and a response in the 2xx range at \<open>t4\<close>. After the failures \<open>attempts\<close> is 1, 2
  and 3 and \<open>next_retry_at\<close> is the instant of the failure plus the first, second and
  third schedule entry; the fourth \<open>processWebhook\<close> returns true, the status is sent,
  \<open>sent_at\<close> is \<open>t4\<close>, and \<open>attempts\<close> is still 3: \<open>markAsSent\<close> does not count
  the successful delivery.
\<close>

theorem C8_three_failures_then_success:
  assumes sched: "retryDelays e \<noteq> []" "0 \<notin> set (retryDelays e)"
      and found: "getWebhookById i w = Some r"
      and r: "w_status r = WPending" "w_attempts r = 0" "3 < w_max_attempts r"
      and fails: "delivery_failed f1" "delivery_failed f2" "delivery_failed f3"
      and succ: "ok response"
      and w1: "w1 = snd (processWebhook e t1 f1 i w)"
      and w2: "w2 = snd (processWebhook e t2 f2 i w1)"
      and w3: "w3 = snd (processWebhook e t3 f3 i w2)"
  shows "\<exists>r1 r2 r3 r4.
           getWebhookById i w1 = Some r1 \<and> w_attempts r1 = 1 \<and> w_status r1 = WPending \<and>
           w_next_retry_at r1 = Some (t1 + retryDelays e ! min 0 (length (retryDelays e) - 1)) \<and>
           getWebhookById i w2 = Some r2 \<and> w_attempts r2 = 2 \<and> w_status r2 = WPending \<and>
           w_next_retry_at r2 = Some (t2 + retryDelays e ! min 1 (length (retryDelays e) - 1)) \<and>
           getWebhookById i w3 = Some r3 \<and> w_attempts r3 = 3 \<and> w_status r3 = WPending \<and>
           w_next_retry_at r3 = Some (t3 + retryDelays e ! min 2 (length (retryDelays e) - 1)) \<and>
           fst (processWebhook e t4 (Inr response) i w3) \<and>
           getWebhookById i (snd (processWebhook e t4 (Inr response) i w3)) = Some r4 \<and>
           w_status r4 = WSent \<and> w_sent_at r4 = Some t4 \<and> w_attempts r4 = 3"
proof -
  from failure_step[OF found r(1) fails(1) sched] r
  obtain r1 where r1: "getWebhookById i w1 = Some r1" "w_attempts r1 = 1"
      "w_max_attempts r1 = w_max_attempts r" "w_status r1 = WPending"
      "w_next_retry_at r1 = Some (t1 + retryDelays e ! min 0 (length (retryDelays e) - 1))"
    unfolding w1 by (auto split: if_splits)
  from failure_step[OF r1(1) r1(4) fails(2) sched] r1 r
  obtain r2 where r2: "getWebhookById i w2 = Some r2" "w_attempts r2 = 2"
      "w_max_attempts r2 = w_max_attempts r" "w_status r2 = WPending"
      "w_next_retry_at r2 = Some (t2 + retryDelays e ! min 1 (length (retryDelays e) - 1))"
    unfolding w2 by (auto split: if_splits)
  from failure_step[OF r2(1) r2(4) fails(3) sched] r2 r
  obtain r3 where r3: "getWebhookById i w3 = Some r3" "w_attempts r3 = 3"
      "w_max_attempts r3 = w_max_attempts r" "w_status r3 = WPending"
      "w_next_retry_at r3 = Some (t3 + retryDelays e ! min 2 (length (retryDelays e) - 1))"
    unfolding w3 by (auto split: if_splits simp: numeral_2_eq_2)
  have p: "processWebhook e t4 (Inr response) i w3 =
           (True, markAsSent t4 i (sendWebhook e t4 r3 w3))"
    by (rule processWebhook_success[OF r3(1) r3(4) refl succ])
  have "getWebhookById i (snd (processWebhook e t4 (Inr response) i w3)) =
        Some (r3\<lparr>w_status := WSent, w_sent_at := Some t4\<rparr>)"
    unfolding p using markAsSent_lookup[OF r3(1)] by simp
  with p r1 r2 r3 show ?thesis by auto
qed


lemma ex_sched: "retryDelays example_env \<noteq> []" "0 \<notin> set (retryDelays example_env)"
  "0 < maxRetries example_env"
  by (simp_all add: example_env_def)

lemma ex_found0: "getWebhookById 1 hooks0 =
   Some \<lparr>w_id = 1, w_payment_id = None, w_event_type = ''payment.completed'',
         w_payload = [(''event_type'', JStr ''payment.completed''), (''timestamp'', JStr ''0'')],
         w_url = ''https://merchant.example/hook'',
         w_signature = Some ''t=0,v1=mac'', w_attempts = 0,
         w_max_attempts = 5, w_next_retry_at = None, w_last_error = None,
         w_status = WPending, w_created_at = 0, w_sent_at = None\<rparr>"
  by code_simp

text \<open>
  The run of claim C8 on the default schedule: retries due at 61 s, 361 s and 1261 s.
\<close>

theorem C8_witness:
  "\<exists>r1 r2 r3 r4.
     getWebhookById 1 hooks1 = Some r1 \<and> w_attempts r1 = 1 \<and> w_next_retry_at r1 = Some 61000 \<and>
     getWebhookById 1 hooks2 = Some r2 \<and> w_attempts r2 = 2 \<and> w_next_retry_at r2 = Some 361000 \<and>
     getWebhookById 1 hooks3 = Some r3 \<and> w_attempts r3 = 3 \<and> w_next_retry_at r3 = Some 1261000 \<and>
     getWebhookById 1 hooks4 = Some r4 \<and> w_status r4 = WSent \<and> w_sent_at r4 = Some 1261000 \<and>
     w_attempts r4 = 3"
proof -
  have f: "delivery_failed http_500" by (simp add: delivery_failed_def http_500_def ok_def)
  have s: "ok \<lparr>rs_status = 200, rs_text = ''ok''\<rparr>" by (simp add: ok_def)
  have d: "retryDelays example_env = [60000, 300000, 900000, 3600000]"
    by (simp add: example_env_def)
  from C8_three_failures_then_success[OF ex_sched(1,2) ex_found0 _ _ _ f f f s
      hooks1_def hooks2_def hooks3_def, of 1261000]
  show ?thesis unfolding hooks4_def http_200_def d by simp blast
qed

text \<open>
  Claim C8 as stated says the stored \<open>attempts\<close> is 4 after the fourth, successful
  delivery. On the run above it is 3.
\<close>

theorem C8_attempts_after_success_is_three:
  "map w_attempts (webhook_events hooks4) = [3] \<and> map w_status (webhook_events hooks4) = [WSent] \<and>
   map w_attempts (webhook_events hooks4) \<noteq> [4]"
  by code_simp

text \<open>
  Claim C7 at a failing input. The host of \<open>https://[fd12:3456:789a::1]/hook\<close> is in
  \<open>fc00::/7\<close>. The parser returns the host name with its brackets, so none of the
  patterns anchored at \<open>fc00:\<close>, \<open>fd00:\<close> and \<open>fe80:\<close> matches: the URL is valid and
  \<open>queueWebhook\<close> stores the event.
\<close>

theorem C7_private_ipv6_host_accepted:
  "valid (validateWebhookUrl example_env ''https://[fd12:3456:789a::1]/hook'') \<and>
   map w_url (webhook_events (snd (queueWebhook example_env 0
        (example_input ''https://[fd12:3456:789a::1]/hook'') empty_hooks))) =
     [''https://[fd12:3456:789a::1]/hook'']"
  by code_simp




section \<open>Properties of the saga orchestrator\<close>

lemma run_steps_completes:
  assumes "completes pre ctx w ctxk wk" and "execute sk ctxk wk = (Inl err, wfail)"
  shows "\<exists>lg'. run_steps (pre @ sk # post) sofar ctx w lg = (Some err, sofar @ pre, ctxk, wfail, lg @ lg') \<and>
               compensations_run lg' = [] \<and> steps_started lg' = map name (pre @ [sk])"
  using assms
proof (induction pre ctx w ctxk wk arbitrary: sofar lg rule: completes.induct)
  case (completes_Nil ctx w)
  then show ?case by (simp add: compensations_run_def steps_started_def)
next
  case (completes_Cons step ctx w ctx1 w1 rest ctx' w')
  from completes_Cons.IH[OF completes_Cons.prems, of "sofar @ [step]"
      "lg @ [Log Debug (Some (name step)) ''Executing saga step'',
             Log Debug (Some (name step)) ''Saga step completed'']"]
  obtain lg' where
    "run_steps (rest @ sk # post) (sofar @ [step]) ctx1 w1
       (lg @ [Log Debug (Some (name step)) ''Executing saga step'',
              Log Debug (Some (name step)) ''Saga step completed'']) =
     (Some err, (sofar @ [step]) @ rest, ctx', wfail,
      (lg @ [Log Debug (Some (name step)) ''Executing saga step'',
             Log Debug (Some (name step)) ''Saga step completed'']) @ lg')"
    "compensations_run lg' = []" "steps_started lg' = map name (rest @ [sk])"
    by blast
  then show ?case using completes_Cons.hyps(1)
    by (intro exI[of _ "[Log Debug (Some (name step)) ''Executing saga step'',
                         Log Debug (Some (name step)) ''Saga step completed''] @ lg'"])
       (simp add: compensations_run_def steps_started_def)
qed

lemma compensations_run_append [simp]:
  "compensations_run (a @ b) = compensations_run a @ compensations_run b"
  by (simp add: compensations_run_def)

lemma steps_started_append [simp]:
  "steps_started (a @ b) = steps_started a @ steps_started b"
  by (simp add: steps_started_def)

lemma compensate_from_sweep:
  "n \<le> length completed \<Longrightarrow>
   \<exists>lg'. compensate_from n completed ctx w lg = (sweep (rev (take n completed)) ctx w, lg @ lg') \<and>
         compensations_run lg' = rev (map name (filter (\<lambda>s. compensate s \<noteq> None) (take n completed))) \<and>
         steps_started lg' = []"
proof (induction n arbitrary: w lg)
  case 0
  then show ?case by (simp add: compensations_run_def steps_started_def)
next
  case (Suc n)
  then have n: "n < length completed" by simp
  then have tk: "take (Suc n) completed = take n completed @ [completed ! n]"
    by (simp add: take_Suc_conv_app_nth)
  have ix: "js_index completed (int n) = Some (completed ! n)"
    using n by (simp add: js_index_def)
  let ?s = "completed ! n"
  show ?case
  proof (cases "compensate ?s")
    case None
    from Suc.IH[of w lg] n obtain lg' where
      "compensate_from n completed ctx w lg = (sweep (rev (take n completed)) ctx w, lg @ lg')"
      "compensations_run lg' = rev (map name (filter (\<lambda>s. compensate s \<noteq> None) (take n completed)))"
      "steps_started lg' = []" by auto
    then show ?thesis using None ix tk by simp
  next
    case (Some undo)
    obtain res w' where c: "undo ctx w = (res, w')" by (cases "undo ctx w")
    let ?l = "lg @ [Log Debug (Some (name ?s)) ''Executing compensation'',
                    (case res of Inr u \<Rightarrow> Log Debug (Some (name ?s)) ''Compensation completed''
                               | Inl ce \<Rightarrow> Log LogError (Some (name ?s)) ''Compensation failed'')]"
    from Suc.IH[of w' ?l] n obtain lg' where IH:
      "compensate_from n completed ctx w' ?l = (sweep (rev (take n completed)) ctx w', ?l @ lg')"
      "compensations_run lg' = rev (map name (filter (\<lambda>s. compensate s \<noteq> None) (take n completed)))"
      "steps_started lg' = []" by auto
    have step: "compensate_from (Suc n) completed ctx w lg = compensate_from n completed ctx w' ?l"
      using Some ix c by (cases res) simp_all
    show ?thesis unfolding step IH(1)
      by (intro exI[of _ "[Log Debug (Some (name ?s)) ''Executing compensation'',
                    (case res of Inr u \<Rightarrow> Log Debug (Some (name ?s)) ''Compensation completed''
                               | Inl ce \<Rightarrow> Log LogError (Some (name ?s)) ''Compensation failed'')] @ lg'"])
         (use Some c tk IH(2,3) in \<open>auto simp: compensations_run_def steps_started_def split: sum.splits\<close>)
  qed
qed

lemma saga_failure:
  assumes pre: "completes pre ctx w ctxk wk"
      and fail: "execute sk ctxk wk = (Inl err, wfail)"
  shows "\<exists>lg. SagaOrchestrator_execute (pre @ sk # post) ctx w =
             (Inr \<lparr>success = False, result_context = ctxk, result_error = Some err,
                   failedStep = Some (name sk), completedSteps = map name pre\<rparr>,
              sweep (rev pre) ctxk wfail, lg) \<and>
           compensations_run lg = rev (map name (filter (\<lambda>s. compensate s \<noteq> None) pre)) \<and>
           steps_started lg = map name pre @ [name sk]"
proof -
  from run_steps_completes[OF pre fail, of post "[]" "[]"] obtain lg1 where
    r: "run_steps (pre @ sk # post) [] ctx w [] = (Some err, pre, ctxk, wfail, lg1)"
    and l1: "compensations_run lg1 = []" "steps_started lg1 = map name (pre @ [sk])"
    by auto
  let ?m = "Log LogError (Some (name sk)) ''Saga step failed, starting compensation''"
  from compensate_from_sweep[of "length pre" pre ctxk wfail "lg1 @ [?m]"] obtain lg2 where
    c: "compensate_from (length pre) pre ctxk wfail (lg1 @ [?m]) =
          (sweep (rev pre) ctxk wfail, (lg1 @ [?m]) @ lg2)"
    and l2: "compensations_run lg2 = rev (map name (filter (\<lambda>s. compensate s \<noteq> None) pre))"
            "steps_started lg2 = []"
    by auto
  have ix: "js_index (pre @ sk # post) (int (length pre)) = Some sk"
    by (simp add: js_index_def)
  have "SagaOrchestrator_execute (pre @ sk # post) ctx w =
          (Inr \<lparr>success = False, result_context = ctxk, result_error = Some err,
                failedStep = Some (name sk), completedSteps = map name pre\<rparr>,
           sweep (rev pre) ctxk wfail, (lg1 @ [?m]) @ lg2)"
    unfolding SagaOrchestrator_execute_def r using ix c by (simp add: Let_def)
  moreover have "compensations_run ((lg1 @ [?m]) @ lg2) =
                 rev (map name (filter (\<lambda>s. compensate s \<noteq> None) pre))"
    using l1 l2 by (simp add: compensations_run_def)
  moreover have "steps_started ((lg1 @ [?m]) @ lg2) = map name pre @ [name sk]"
    using l1 l2 by (simp add: steps_started_def)
  ultimately show ?thesis by blast
qed

lemma run_steps_all:
  assumes "completes steps ctx w ctx' w'"
  shows "\<exists>lg'. run_steps steps sofar ctx w lg = (None, sofar @ steps, ctx', w', lg @ lg') \<and>
               compensations_run lg' = []"
  using assms
proof (induction steps ctx w ctx' w' arbitrary: sofar lg rule: completes.induct)
  case (completes_Nil ctx w)
  then show ?case by (simp add: compensations_run_def)
next
  case (completes_Cons step ctx w ctx1 w1 rest ctx' w')
  let ?l = "[Log Debug (Some (name step)) ''Executing saga step'',
             Log Debug (Some (name step)) ''Saga step completed'']"
  from completes_Cons.IH[of "sofar @ [step]" "lg @ ?l"] obtain lg' where
    "run_steps rest (sofar @ [step]) ctx1 w1 (lg @ ?l) =
       (None, (sofar @ [step]) @ rest, ctx', w', (lg @ ?l) @ lg')"
    "compensations_run lg' = []" by blast
  then show ?case using completes_Cons.hyps(1)
    by (intro exI[of _ "?l @ lg'"]) (simp add: compensations_run_def)
qed

lemma saga_success:
  assumes "completes steps ctx w ctx' w'"
  shows "\<exists>lg. SagaOrchestrator_execute steps ctx w =
             (Inr \<lparr>success = True, result_context = ctx', result_error = None,
                   failedStep = None, completedSteps = map name steps\<rparr>, w', lg) \<and>
           compensations_run lg = []"
proof -
  from run_steps_all[OF assms, of "[]" "[]"] obtain lg where
    "run_steps steps [] ctx w [] = (None, steps, ctx', w', lg)" "compensations_run lg = []"
    by auto
  then show ?thesis by (simp add: SagaOrchestrator_execute_def)
qed

text \<open>
  Claim C3 (saga compensation order). The steps \<open>pre\<close> complete in order and the
  next step \<open>sk\<close> throws \<open>err\<close>. Then \<open>execute\<close> returns the result with
  \<open>success = false\<close>, the error, the name of \<open>sk\<close> as \<open>failedStep\<close> and the names of
  \<open>pre\<close> in execution order; the world it leaves is the one the compensations of
  \<open>pre\<close> produce when run last to first, each exactly once and each whatever the
  earlier ones returned or threw; the log shows those compensations in that order
  and no others, and no step after \<open>sk\<close> was started.
\<close>

theorem C3_saga_compensation_order:
  assumes pre: "completes pre ctx w ctxk wk"
      and fail: "execute sk ctxk wk = (Inl err, wfail)"
  shows "\<exists>lg. SagaOrchestrator_execute (pre @ sk # post) ctx w =
             (Inr \<lparr>success = False, result_context = ctxk, result_error = Some err,
                   failedStep = Some (name sk), completedSteps = map name pre\<rparr>,
              sweep (rev pre) ctxk wfail, lg) \<and>
           compensations_run lg = rev (map name (filter (\<lambda>s. compensate s \<noteq> None) pre)) \<and>
           steps_started lg = map name pre @ [name sk]"
  using assms by (rule saga_failure)






lemma test_completes:
  "completes [test_step ''step1'' False, test_step ''step2'' True] [] [] [''step1'', ''step2''] []"
  by (rule completes_Cons[where ?ctx1.0 = "[''step1'']" and ?w1.0 = "[]"],
      simp add: test_step_def,
      rule completes_Cons[where ?ctx1.0 = "[''step1'', ''step2'']" and ?w1.0 = "[]"],
      simp add: test_step_def, rule completes_Nil)

text \<open>
  Claim C3 on the saga of the unit test: \<open>step3\<close> throws, the compensation of
  \<open>step2\<close> throws, and the compensation of \<open>step1\<close> still runs after it.
\<close>

theorem C3_witness:
  "\<exists>lg. SagaOrchestrator_execute test_saga [] [] =
          (Inr \<lparr>success = False, result_context = [''step1'', ''step2''],
                result_error = Some (Error ''Failed''), failedStep = Some ''step3'',
                completedSteps = [''step1'', ''step2'']\<rparr>,
           [''comp_step2'', ''comp_step1''], lg) \<and>
        compensations_run lg = [''step2'', ''step1'']"
proof -
  have f: "execute test_step3 [''step1'', ''step2''] [] = (Inl (Error ''Failed''), [])"
    by (simp add: test_step3_def)
  from C3_saga_compensation_order[OF test_completes f, of "[]"]
  show ?thesis by (auto simp: test_saga_def test_step_def test_step3_def)
qed

section \<open>Properties of the payment service\<close>

lemma find_append_last:
  assumes "\<forall>x \<in> set xs. \<not> P x" and "P y"
  shows "find P (xs @ [y]) = Some y"
  using assms by (induction xs) auto


lemma map_update_fresh:
  "i \<notin> p_id ` set old \<Longrightarrow> map (\<lambda>q. if p_id q = i then f q else q) old = old"
  by (induction old) auto

lemma update_payment_last:
  assumes "payments w = old @ [p]" and "p_id p \<notin> p_id ` set old"
  shows "update_payment (p_id p) f w = w\<lparr>payments := old @ [f p]\<rparr>"
  using assms by (simp add: update_payment_def map_update_fresh)

lemma getPaymentById_last:
  assumes "payments w = old @ [p]" and "p_id p \<notin> p_id ` set old"
  shows "getPaymentById (p_id p) w = Some p"
  unfolding getPaymentById_def assms(1)
  by (rule find_append_last) (use assms(2) in \<open>auto simp: image_iff\<close>)

lemma updatePayment_last:
  assumes "payments w = old @ [p]" and "p_id p \<notin> p_id ` set old"
      and "up_status input = Some s" and "up_metadata input = None"
  shows "updatePayment now (p_id p) input w =
         (Some (p\<lparr>p_status := s,
                  p_provider_transaction_id :=
                    (case up_provider_transaction_id input of
                       Some t \<Rightarrow> Some t | None \<Rightarrow> p_provider_transaction_id p),
                  p_updated_at := now\<rparr>),
          w\<lparr>payments := old @ [p\<lparr>p_status := s,
                  p_provider_transaction_id :=
                    (case up_provider_transaction_id input of
                       Some t \<Rightarrow> Some t | None \<Rightarrow> p_provider_transaction_id p),
                  p_updated_at := now\<rparr>]\<rparr>)"
proof -
  let ?f = "\<lambda>p. p\<lparr>p_status := (case up_status input of Some s \<Rightarrow> s | None \<Rightarrow> p_status p),
                          p_provider_transaction_id :=
                            (case up_provider_transaction_id input of
                               Some t \<Rightarrow> Some t | None \<Rightarrow> p_provider_transaction_id p),
                          p_metadata :=
                            (case up_metadata input of
                               Some m \<Rightarrow> fold (\<lambda>(k, v). AList.update k v) m (p_metadata p)
                             | None \<Rightarrow> p_metadata p),
                          p_updated_at := now\<rparr>"
  have u: "update_payment (p_id p) ?f w = w\<lparr>payments := old @ [?f p]\<rparr>"
    by (rule update_payment_last[OF assms(1,2)])
  have g: "getPaymentById (p_id p) (w\<lparr>payments := old @ [?f p]\<rparr>) = Some (?f p)"
    using getPaymentById_last[of "w\<lparr>payments := old @ [?f p]\<rparr>" old "?f p"] assms(2) by simp
  show ?thesis
    unfolding updatePayment_def using assms(3,4) u g by (simp add: Let_def)
qed

lemma payments_createTransaction [simp]:
  "payments (snd (createTransaction now input w)) = payments w"
  by (simp add: createTransaction_def Let_def)

lemma payments_audit_log [simp]:
  "payments (audit_log now et ei ac ov nv ctx w) = payments w"
  by (simp add: audit_log_def)

lemma payments_logPaymentStatusChanged [simp]:
  "payments (logPaymentStatusChanged now i a b ctx w) = payments w"
  by (simp add: logPaymentStatusChanged_def)

lemma payments_logPaymentCreated [simp]:
  "payments (logPaymentCreated now i d ctx w) = payments w"
  by (simp add: logPaymentCreated_def)


text \<open>What each step of the charge saga does to the row it works on.\<close>

lemma step1_ok:
  assumes "createPayment now (sc_input ctx) w = (Inr payment, w1)"
  shows "\<exists>w'. execute (create_payment_record now) ctx w = (Inr (ctx\<lparr>sc_payment := Some payment\<rparr>), w') \<and>
              payments w' = payments w @ [payment] \<and>
              p_id payment = fresh_id (map p_id (payments w)) \<and> p_status payment = Pending \<and>
              p_webhook_url payment = or_null (in_webhook_url (sc_input ctx)) \<and>
              webhook_events w' = webhook_events w"
proof -
  from assms have p: "payments w1 = payments w @ [payment]"
    "p_id payment = fresh_id (map p_id (payments w))" "p_status payment = Pending"
    "p_webhook_url payment = or_null (in_webhook_url (sc_input ctx))"
    "webhook_events w1 = webhook_events w"
    by (auto simp: createPayment_def Let_def split: if_splits)
  show ?thesis using assms p
    by (simp add: create_payment_record_def Let_def split: prod.splits)
       (auto simp: createTransaction_def logPaymentCreated_def audit_log_def Let_def)
qed


lemma step2_ok:
  assumes c: "sc_payment ctx = Some payment"
      and t: "payments w = old @ [p]" "p_id p \<notin> p_id ` set old" "p_id payment = p_id p"
      and g: "getProvider e (in_provider (sc_input ctx)) = Inr provider"
      and r: "prov_processPayment provider (request_of ctx payment) = Inr response"
  shows "\<exists>ctx' w' p'. execute (process_with_provider e now) ctx w = (Inr ctx', w') \<and>
           sc_payment ctx' = Some p' \<and> payments w' = old @ [p'] \<and> p_id p' = p_id p \<and>
           p_status p' = newStatus_of response \<and> p_webhook_url p' = p_webhook_url p \<and>
           sc_auditContext ctx' = sc_auditContext ctx \<and>
           webhook_events w' = webhook_events w"
proof -
  let ?i = "p_id p"
  let ?u1 = "\<lparr>up_status = Some Processing, up_provider_transaction_id = None, up_metadata = None\<rparr>"
  let ?p1 = "p\<lparr>p_status := Processing, p_provider_transaction_id := p_provider_transaction_id p,
                p_updated_at := now\<rparr>"
  let ?w1 = "w\<lparr>payments := old @ [?p1]\<rparr>"
  have u1: "updatePayment now ?i ?u1 w = (Some ?p1, ?w1)"
    using updatePayment_last[OF t(1,2), of ?u1 Processing now] by simp
  obtain tr w2 where ct: "createTransaction now
        \<lparr>ct_payment_id = ?i, ct_status = ''processing'',
         ct_provider_response = None, ct_error_message = None\<rparr> ?w1 = (tr, w2)"
    by (cases "createTransaction now
        \<lparr>ct_payment_id = ?i, ct_status = ''processing'',
         ct_provider_response = None, ct_error_message = None\<rparr> ?w1")
  have w2: "payments w2 = old @ [?p1]" "webhook_events w2 = webhook_events w"
    using ct by (auto simp: createTransaction_def Let_def)
  let ?u2 = "\<lparr>up_status = Some (newStatus_of response),
              up_provider_transaction_id = Some (pr_transactionId response), up_metadata = None\<rparr>"
  let ?p2 = "?p1\<lparr>p_status := newStatus_of response,
                  p_provider_transaction_id := Some (pr_transactionId response),
                  p_updated_at := now\<rparr>"
  have u2: "updatePayment now ?i ?u2 w2 = (Some ?p2, w2\<lparr>payments := old @ [?p2]\<rparr>)"
    using updatePayment_last[OF w2(1), of ?u2 "newStatus_of response" now] t(2) by simp
  show ?thesis
    using c t(3) g r u1 ct u2 w2
    by (simp add: process_with_provider_def Let_def split: prod.splits)
       (auto simp: createTransaction_def logPaymentStatusChanged_def audit_log_def Let_def)
qed


lemma queueWebhook_valid:
  assumes "valid (validateWebhookUrl e (q_url input))"
  shows "\<exists>ev w'. queueWebhook e now input (w::world) = (Inr ev, w') \<and> payments w' = payments w \<and>
           webhook_events w' = webhook_events w @ [ev] \<and> w_url ev = q_url input \<and>
           w_event_type ev = q_event_type input \<and> w_payment_id ev = q_payment_id input \<and>
           transactions w' = transactions w \<and> audit_logs w' = audit_logs w \<and> refunds w' = refunds w"
  using assms by (simp add: queueWebhook_def Let_def publishToQueue_def)

lemma queueWebhook_invalid:
  assumes "\<not> valid (validateWebhookUrl e (q_url input))"
  shows "\<exists>err. queueWebhook e now input w = (Inl err, w)"
  using assms by (simp add: queueWebhook_def Let_def)

lemma step3_ok:
  assumes "sc_payment ctx = Some p" and "webhook_url_ok e (p_webhook_url p)"
  shows "\<exists>w'. execute (send_webhook e now) ctx w = (Inr ctx, w') \<and> payments w' = payments w"
proof (cases "or_null (p_webhook_url p)")
  case None
  then show ?thesis using assms by (simp add: send_webhook_def)
next
  case (Some url)
  let ?inp = "\<lparr>q_payment_id = Some (p_id p),
                 q_event_type = ''payment.'' @ status_text (p_status p),
                 q_url = url,
                 q_payload =
                   [(''id'', JNum (of_nat (p_id p))),
                    (''external_id'',
                       (case p_external_id p of Some x \<Rightarrow> JStr x | None \<Rightarrow> JNull)),
                    (''amount'', JStr (numeric_text (p_amount p))),
                    (''currency'', JStr (p_currency p)),
                    (''status'', JStr (status_text (p_status p))),
                    (''provider'', JStr (p_provider p)),
                    (''provider_transaction_id'',
                       (case p_provider_transaction_id p of
                          Some x \<Rightarrow> JStr x | None \<Rightarrow> JNull)),
                    (''created_at'', JStr (toISOString e (p_created_at p)))]\<rparr>"
  have "valid (validateWebhookUrl e (q_url ?inp))"
    using assms(2) Some by (simp add: webhook_url_ok_def)
  from queueWebhook_valid[OF this, of now w] obtain ev w' where
    "queueWebhook e now ?inp w = (Inr ev, w')" "payments w' = payments w" by blast
  then show ?thesis using assms(1) Some by (simp add: send_webhook_def)
qed






lemma fresh_payment_id: "fresh_id (map p_id (payments w)) \<notin> p_id ` set (payments w)"
  using fresh_id_notin[of "map p_id (payments w)"] by simp


text \<open>The saga when the insert is not refused and the provider answers.\<close>

lemma saga_responded:
  assumes cp: "createPayment now input w = (Inr payment, w1)"
      and g: "getProvider e (in_provider input) = Inr provider"
      and r: "prov_processPayment provider
                (request_of \<lparr>sc_input = input, sc_payment = Some payment, sc_providerResponse = None,
                              sc_auditContext = ac\<rparr> payment) = Inr response"
      and u: "webhook_url_ok e (in_webhook_url input)"
  shows "\<exists>res w' lg p'.
           SagaOrchestrator_execute (createPaymentSaga e now)
             \<lparr>sc_input = input, sc_payment = None, sc_providerResponse = None,
              sc_auditContext = ac\<rparr> w = (Inr res, w', lg) \<and>
           success res \<and> result_error res = None \<and>
           completedSteps res = [''create_payment_record'', ''process_with_provider'', ''send_webhook''] \<and>
           compensations_run lg = [] \<and>
           sc_payment (result_context res) = Some p' \<and>
           getPaymentById (p_id payment) w' = Some p' \<and>
           p_id payment = fresh_id (map p_id (payments w)) \<and>
           p_status p' = newStatus_of response"
proof -
  let ?c0 = "\<lparr>sc_input = input, sc_payment = None, sc_providerResponse = None,
              sc_auditContext = ac\<rparr>"
  let ?c1 = "?c0\<lparr>sc_payment := Some payment\<rparr>"
  have c1: "?c1 = \<lparr>sc_input = input, sc_payment = Some payment, sc_providerResponse = None,
                    sc_auditContext = ac\<rparr>" by simp
  from step1_ok[of now ?c0 w payment w1] cp obtain wa where
    s1: "execute (create_payment_record now) ?c0 w = (Inr ?c1, wa)"
    and pa: "payments wa = payments w @ [payment]"
            "p_id payment = fresh_id (map p_id (payments w))"
            "p_webhook_url payment = or_null (in_webhook_url input)"
    by auto
  have fr: "p_id payment \<notin> p_id ` set (payments w)" using pa(2) fresh_payment_id by simp
  from step2_ok[of ?c1 payment wa "payments w" payment e provider response now] pa fr g r c1
  obtain c2 wb p2 where
    s2: "execute (process_with_provider e now) ?c1 wa = (Inr c2, wb)"
    and pb: "sc_payment c2 = Some p2" "payments wb = payments w @ [p2]" "p_id p2 = p_id payment"
            "p_status p2 = newStatus_of response" "p_webhook_url p2 = p_webhook_url payment"
    by auto
  have "webhook_url_ok e (p_webhook_url p2)"
    using u pb(5) pa(3) by (simp add: webhook_url_ok_def or_null_def split: option.splits if_splits)
  from step3_ok[OF pb(1) this, of now wb] obtain wc where
    s3: "execute (send_webhook e now) c2 wb = (Inr c2, wc)" and pc: "payments wc = payments wb"
    by auto
  have "completes (createPaymentSaga e now) ?c0 w c2 wc"
    unfolding createPaymentSaga_def
    by (intro completes_Cons[OF s1] completes_Cons[OF s2] completes_Cons[OF s3] completes_Nil)
  from saga_success[OF this] obtain lg where
    ex: "SagaOrchestrator_execute (createPaymentSaga e now) ?c0 w =
          (Inr \<lparr>success = True, result_context = c2, result_error = None, failedStep = None,
                completedSteps = map name (createPaymentSaga e now)\<rparr>, wc, lg)"
    and lg: "compensations_run lg = []" by blast
  have names: "map name (createPaymentSaga e now) =
               [''create_payment_record'', ''process_with_provider'', ''send_webhook'']"
    by (simp add: createPaymentSaga_def create_payment_record_def process_with_provider_def
        send_webhook_def)
  have gp: "getPaymentById (p_id payment) wc = Some p2"
    using getPaymentById_last[of wc "payments w" p2] pc pb fr by simp
  show ?thesis using ex lg names gp pb pa(2) by auto
qed


lemma find_map_update_payment:
  assumes "\<And>p. p_id (f p) = p_id p"
  shows "find (\<lambda>p. p_id p = i) (map (\<lambda>p. if p_id p = j then f p else p) rows) =
         (if i = j then map_option f (find (\<lambda>p. p_id p = i) rows) else find (\<lambda>p. p_id p = i) rows)"
  using assms by (induction rows) auto

lemma getPaymentById_update_payment:
  assumes "\<And>p. p_id (f p) = p_id p"
  shows "getPaymentById i (update_payment j f w) =
         (if i = j then map_option f (getPaymentById i w) else getPaymentById i w)"
  unfolding getPaymentById_def update_payment_def using find_map_update_payment[OF assms] by simp

lemma getPaymentById_cong: "payments w' = payments w \<Longrightarrow> getPaymentById i w' = getPaymentById i w"
  by (simp add: getPaymentById_def)

lemma getPaymentById_id: "getPaymentById i w = Some p \<Longrightarrow> p_id p = i"
  unfolding getPaymentById_def by (drule find_Some_mem) simp

lemma updatePayment_found:
  assumes "getPaymentById i w = Some row" and "up_status input = Some s" and "up_metadata input = None"
  shows "\<exists>p' w'. updatePayment now i input w = (Some p', w') \<and> getPaymentById i w' = Some p' \<and>
           p_status p' = s \<and> p_id p' = i"
proof -
  let ?f = "\<lambda>p. p\<lparr>p_status := (case up_status input of Some s \<Rightarrow> s | None \<Rightarrow> p_status p),
                          p_provider_transaction_id :=
                            (case up_provider_transaction_id input of
                               Some t \<Rightarrow> Some t | None \<Rightarrow> p_provider_transaction_id p),
                          p_metadata :=
                            (case up_metadata input of
                               Some m \<Rightarrow> fold (\<lambda>(k, v). AList.update k v) m (p_metadata p)
                             | None \<Rightarrow> p_metadata p),
                          p_updated_at := now\<rparr>"
  have "getPaymentById i (update_payment i ?f w) = Some (?f row)"
    using getPaymentById_update_payment[of ?f i i w] assms(1) by simp
  then show ?thesis using assms getPaymentById_id[OF assms(1)]
    by (simp add: updatePayment_def Let_def)
qed

lemma step2_general:
  assumes c: "sc_payment ctx = Some payment"
      and f: "getPaymentById (p_id payment) w = Some row"
      and g: "getProvider e (in_provider (sc_input ctx)) = Inr provider"
      and r: "prov_processPayment provider (request_of ctx payment) = Inr response"
  shows "\<exists>ctx' w' p'. execute (process_with_provider e now) ctx w = (Inr ctx', w') \<and>
           getPaymentById (p_id payment) w' = Some p' \<and> sc_payment ctx' = Some p' \<and>
           p_status p' = newStatus_of response"
proof -
  let ?i = "p_id payment"
  let ?u1 = "\<lparr>up_status = Some Processing, up_provider_transaction_id = None, up_metadata = None\<rparr>"
  from updatePayment_found[OF f, of ?u1 Processing now] obtain p1 w1 where
    u1: "updatePayment now ?i ?u1 w = (Some p1, w1)" "getPaymentById ?i w1 = Some p1" by auto
  obtain tr w2 where ct: "createTransaction now
        \<lparr>ct_payment_id = ?i, ct_status = ''processing'',
         ct_provider_response = None, ct_error_message = None\<rparr> w1 = (tr, w2)"
    by (cases "createTransaction now
        \<lparr>ct_payment_id = ?i, ct_status = ''processing'',
         ct_provider_response = None, ct_error_message = None\<rparr> w1")
  have "payments w2 = payments w1" using ct payments_createTransaction[of now _ w1] by (metis snd_conv)
  then have g2: "getPaymentById ?i w2 = Some p1" using u1(2) by (simp add: getPaymentById_def)
  let ?u2 = "\<lparr>up_status = Some (newStatus_of response),
              up_provider_transaction_id = Some (pr_transactionId response), up_metadata = None\<rparr>"
  from updatePayment_found[OF g2, of ?u2 "newStatus_of response" now] obtain p2 w3 where
    u2: "updatePayment now ?i ?u2 w2 = (Some p2, w3)" "getPaymentById ?i w3 = Some p2"
        "p_status p2 = newStatus_of response" by auto
  obtain tr' w4 where ct': "createTransaction now
        \<lparr>ct_payment_id = ?i, ct_status = status_text (newStatus_of response),
         ct_provider_response = Some (pr_rawResponse response),
         ct_error_message = pr_errorMessage response\<rparr> w3 = (tr', w4)"
    by (cases "createTransaction now
        \<lparr>ct_payment_id = ?i, ct_status = status_text (newStatus_of response),
         ct_provider_response = Some (pr_rawResponse response),
         ct_error_message = pr_errorMessage response\<rparr> w3")
  have "payments w4 = payments w3" using ct' payments_createTransaction[of now _ w3] by (metis snd_conv)
  then have g4: "getPaymentById ?i
      (logPaymentStatusChanged now ?i ''processing'' (status_text (newStatus_of response))
         (sc_auditContext ctx) w4) = Some p2"
    using u2(2) by (simp add: getPaymentById_def)
  show ?thesis
    using c g r u1(1) ct u2(1,3) ct' g4
    by (simp add: process_with_provider_def Let_def)
qed

text \<open>
  Claim C5 (provider response mapping). First part: when the context holds a payment
  that is in the table and the provider of the input answers \<open>response\<close>, the step
  \<open>process_with_provider\<close> returns normally, and the status it leaves in the table
  and in the context is completed for \<open>success\<close> with status "completed", pending
  for \<open>success\<close> with any other status, failed without \<open>success\<close>. Second part:
  when the insert of the payment is not refused, the provider answers and the
  webhook URL is absent or passes the URL check, the whole saga completes its three
  steps with that status in the table and runs no compensation, also for a decline.
\<close>

theorem C5_provider_response_mapping:
  "(sc_payment ctx = Some payment \<and> getPaymentById (p_id payment) w = Some row \<and>
    getProvider e (in_provider (sc_input ctx)) = Inr provider \<and>
    prov_processPayment provider (request_of ctx payment) = Inr response \<longrightarrow>
    (\<exists>ctx' w' p'.
       execute (process_with_provider e now) ctx w = (Inr ctx', w') \<and>
       getPaymentById (p_id payment) w' = Some p' \<and> sc_payment ctx' = Some p' \<and>
       p_status p' =
         (if pr_success response
          then (if pr_status response = ''completed'' then Completed else Pending)
          else Failed))) \<and>
   (createPayment now input w = (Inr payment, w1) \<and>
    getProvider e (in_provider input) = Inr provider \<and>
    prov_processPayment provider
      (request_of \<lparr>sc_input = input, sc_payment = Some payment, sc_providerResponse = None,
                    sc_auditContext = ac\<rparr> payment) = Inr response \<and>
    webhook_url_ok e (in_webhook_url input) \<longrightarrow>
    (\<exists>res w' lg p'.
       SagaOrchestrator_execute (createPaymentSaga e now)
         \<lparr>sc_input = input, sc_payment = None, sc_providerResponse = None,
          sc_auditContext = ac\<rparr> w = (Inr res, w', lg) \<and>
       success res \<and>
       completedSteps res = [''create_payment_record'', ''process_with_provider'', ''send_webhook''] \<and>
       compensations_run lg = [] \<and>
       getPaymentById (p_id payment) w' = Some p' \<and>
       p_status p' =
         (if pr_success response
          then (if pr_status response = ''completed'' then Completed else Pending)
          else Failed)))"
proof (intro conjI impI)
  assume "sc_payment ctx = Some payment \<and> getPaymentById (p_id payment) w = Some row \<and>
    getProvider e (in_provider (sc_input ctx)) = Inr provider \<and>
    prov_processPayment provider (request_of ctx payment) = Inr response"
  then show "\<exists>ctx' w' p'.
       execute (process_with_provider e now) ctx w = (Inr ctx', w') \<and>
       getPaymentById (p_id payment) w' = Some p' \<and> sc_payment ctx' = Some p' \<and>
       p_status p' =
         (if pr_success response
          then (if pr_status response = ''completed'' then Completed else Pending)
          else Failed)"
    using step2_general[of ctx payment w row e provider response now]
    unfolding newStatus_of_def by blast
next
  assume "createPayment now input w = (Inr payment, w1) \<and>
    getProvider e (in_provider input) = Inr provider \<and>
    prov_processPayment provider
      (request_of \<lparr>sc_input = input, sc_payment = Some payment, sc_providerResponse = None,
                    sc_auditContext = ac\<rparr> payment) = Inr response \<and>
    webhook_url_ok e (in_webhook_url input)"
  then have "\<exists>res w' lg p'.
           SagaOrchestrator_execute (createPaymentSaga e now)
             \<lparr>sc_input = input, sc_payment = None, sc_providerResponse = None,
              sc_auditContext = ac\<rparr> w = (Inr res, w', lg) \<and>
           success res \<and> result_error res = None \<and>
           completedSteps res = [''create_payment_record'', ''process_with_provider'', ''send_webhook''] \<and>
           compensations_run lg = [] \<and>
           sc_payment (result_context res) = Some p' \<and>
           getPaymentById (p_id payment) w' = Some p' \<and>
           p_id payment = fresh_id (map p_id (payments w)) \<and>
           p_status p' = newStatus_of response"
    by (elim conjE) (rule saga_responded; assumption)
  then show "\<exists>res w' lg p'.
       SagaOrchestrator_execute (createPaymentSaga e now)
         \<lparr>sc_input = input, sc_payment = None, sc_providerResponse = None,
          sc_auditContext = ac\<rparr> w = (Inr res, w', lg) \<and>
       success res \<and>
       completedSteps res = [''create_payment_record'', ''process_with_provider'', ''send_webhook''] \<and>
       compensations_run lg = [] \<and>
       getPaymentById (p_id payment) w' = Some p' \<and>
       p_status p' =
         (if pr_success response
          then (if pr_status response = ''completed'' then Completed else Pending)
          else Failed)"
    unfolding newStatus_of_def by blast
qed










lemma transactions_update_payment [simp]: "transactions (update_payment i f w) = transactions w"
  "audit_logs (update_payment i f w) = audit_logs w"
  "webhook_events (update_payment i f w) = webhook_events w"
  "refunds (update_payment i f w) = refunds w"
  by (simp_all add: update_payment_def)



lemma ex_lower: "toLowerCase ''Stripe'' = ''stripe''"
  by code_simp

lemma ex_getProvider: "getProvider example_env ''Stripe'' = Inr example_provider"
  by (simp add: getProvider_def example_env_def ex_lower)

lemma ex_create_declined:
  "createPayment 5 (example_payment_input (10099 / 100) None) empty_world =
   (Inr (example_payment (10099 / 100)),
    empty_world\<lparr>payments := [example_payment (10099 / 100)]\<rparr>)"
  by code_simp

lemma ex_declined:
  "prov_processPayment example_provider
     (request_of \<lparr>sc_input = example_payment_input (10099 / 100) None,
                   sc_payment = Some (example_payment (10099 / 100)),
                   sc_providerResponse = None, sc_auditContext = None\<rparr>
        (example_payment (10099 / 100))) =
   Inr \<lparr>pr_success = False, pr_transactionId = ''ch_declined'', pr_status = ''failed'',
        pr_rawResponse = [(''status'', JStr ''failed'')],
        pr_errorCode = Some ''card_declined'',
        pr_errorMessage = Some ''Your card was declined.''\<rparr>"
  by code_simp


lemma ex_url_none: "webhook_url_ok example_env None"
  by (simp add: webhook_url_ok_def or_null_def)


lemma ex_world1:
  "getPaymentById 1 (empty_world\<lparr>payments := [example_payment (10099 / 100)]\<rparr>) =
   Some (example_payment (10099 / 100))"
  by code_simp

text \<open>
  Claim C5 on a charge of 100.99, which the example provider declines.
\<close>

theorem C5_witness:
  "(\<exists>ctx' w' p'.
      execute (process_with_provider example_env 5)
        \<lparr>sc_input = example_payment_input (10099 / 100) None,
         sc_payment = Some (example_payment (10099 / 100)),
         sc_providerResponse = None, sc_auditContext = None\<rparr>
        (empty_world\<lparr>payments := [example_payment (10099 / 100)]\<rparr>) = (Inr ctx', w') \<and>
      getPaymentById 1 w' = Some p' \<and> sc_payment ctx' = Some p' \<and> p_status p' = Failed) \<and>
   (\<exists>res w' lg p'.
      SagaOrchestrator_execute (createPaymentSaga example_env 5)
        \<lparr>sc_input = example_payment_input (10099 / 100) None, sc_payment = None,
         sc_providerResponse = None, sc_auditContext = None\<rparr> empty_world = (Inr res, w', lg) \<and>
      success res \<and> compensations_run lg = [] \<and>
      getPaymentById 1 w' = Some p' \<and> p_status p' = Failed)"
proof -
  let ?inp = "example_payment_input (10099 / 100) None"
  let ?p = "example_payment (10099 / 100)"
  let ?ctx = "\<lparr>sc_input = ?inp, sc_payment = Some ?p,
               sc_providerResponse = None, sc_auditContext = None\<rparr>"
  let ?w = "empty_world\<lparr>payments := [?p]\<rparr>"
  let ?resp = "\<lparr>pr_success = False, pr_transactionId = ''ch_declined'', pr_status = ''failed'',
        pr_rawResponse = [(''status'', JStr ''failed'')],
        pr_errorCode = Some ''card_declined'',
        pr_errorMessage = Some ''Your card was declined.''\<rparr>"
  have i1: "p_id ?p = 1" by (simp add: example_payment_def)
  have g: "getProvider example_env (in_provider ?inp) = Inr example_provider"
    using ex_getProvider by (simp add: example_payment_input_def)
  have u: "webhook_url_ok example_env (in_webhook_url ?inp)"
    using ex_url_none by (simp add: example_payment_input_def)
  have f: "getPaymentById (p_id ?p) ?w = Some ?p" using ex_world1 i1 by simp
  note T1 = C5_provider_response_mapping[where ctx = ?ctx and payment = ?p and w = ?w
      and row = ?p and e = example_env and provider = example_provider and response = ?resp
      and now = 5, THEN conjunct1]
  note T2 = C5_provider_response_mapping[where payment = ?p and w = empty_world
      and e = example_env and provider = example_provider and response = ?resp
      and now = 5 and input = ?inp and ?w1.0 = ?w and ac = None, THEN conjunct2]
  have a: "\<exists>ctx' w' p'.
      execute (process_with_provider example_env 5) ?ctx ?w = (Inr ctx', w') \<and>
      getPaymentById (p_id ?p) w' = Some p' \<and> sc_payment ctx' = Some p' \<and> p_status p' = Failed"
    using T1 f g ex_declined by simp
  have b: "\<exists>res w' lg p'.
      SagaOrchestrator_execute (createPaymentSaga example_env 5)
        \<lparr>sc_input = ?inp, sc_payment = None,
         sc_providerResponse = None, sc_auditContext = None\<rparr> empty_world = (Inr res, w', lg) \<and>
      success res \<and>
      completedSteps res = [''create_payment_record'', ''process_with_provider'', ''send_webhook''] \<and>
      compensations_run lg = [] \<and>
      getPaymentById (p_id ?p) w' = Some p' \<and> p_status p' = Failed"
    using T2 ex_create_declined g ex_declined u by simp
  from a b show ?thesis unfolding i1 by blast
qed











section \<open>Amount conservation of refunds\<close>










lemma sum_refunds_cong: "refunds w' = refunds w \<Longrightarrow> sum_refunds i s w' = sum_refunds i s w"
  by (simp add: sum_refunds_def)


lemma payments_simps [simp]:
  "payments (logRefundCreated now i d ctx w) = payments w"
  "payments (logRefundStatusChanged now i a b ctx w) = payments w"
  "payments (update_refund j f w) = payments w"
  by (simp_all add: audit_log_def logRefundCreated_def logRefundStatusChanged_def update_refund_def)

lemma payments_updateRefund [simp]: "payments (snd (updateRefund now i input w)) = payments w"
  by (simp add: updateRefund_def Let_def)







lemma createRefund_refused:
  assumes "createRefund now input w = (Inl err, w1)"
  shows "w1 = w"
  using assms by (auto simp: createRefund_def Let_def split: if_splits)















section \<open>Replay and conflict of idempotency keys\<close>


lemma check_conflict:
  assumes "stored_record now k merchantId s = Some r" "i_request_hash r \<noteq> h"
  shows "IdempotencyService_check now k merchantId h s =
           (Inl (IdempotencyConflictError conflict_message), s)"
  using assms
  by (auto simp: stored_record_def IdempotencyService_check_def split: option.splits)

lemma idempotency_keys_cacheRecord [simp]:
  "idempotency_keys (cacheRecord now r s) = idempotency_keys s"
  by (simp add: cacheRecord_def redis_setex_def Let_def)

lemma check_match:
  assumes "stored_record now k merchantId s = Some r" "i_request_hash r = h"
  shows "\<exists>s'. IdempotencyService_check now k merchantId h s = (Inr (result_of r), s') \<and>
              idempotency_keys s' = idempotency_keys s"
  using assms
  by (auto simp: stored_record_def IdempotencyService_check_def split: option.splits)

lemma middleware_check:
  assumes "fr_method request \<in> {''POST'', ''PUT'', ''PATCH''}"
    "fr_header_idempotency_key request = Some k" "k \<noteq> []"
    "fr_merchantId request = Some merchantId" "merchantId \<noteq> []"
  shows "idempotencyMiddleware c now request s =
     (let request1 = request\<lparr>fr_idempotencyKey := Some k\<rparr>;
          requestHash = generateRequestHash c (fr_body request) (fr_url request) (fr_method request)
      in case IdempotencyService_check now k merchantId requestHash s of
           (Inl err, s1) \<Rightarrow> middleware_catch err request1 s1
         | (Inr result, s1) \<Rightarrow>
             if ir_exists result then
               if ir_isProcessing result then
                 (Some (Reply 409 (Some processing_body)), request1, s1)
               else
                 (Some (Reply (case or_undefined (ir_statusCode result) of
                                 Some n \<Rightarrow> n | None \<Rightarrow> 200)
                          (ir_response result)),
                  request1, s1)
             else
               (case IdempotencyService_startProcessing c now k merchantId requestHash
                       (fr_url request) (fr_method request) s1 of
                  (Inl err, s2) \<Rightarrow> middleware_catch err request1 s2
                | (Inr u, s2) \<Rightarrow> (None, request1, s2)))"
  using assms by (auto simp: idempotencyMiddleware_def or_null_def)

lemma replayed_code_result:
  "i_status r = ICompleted \<Longrightarrow>
   (case or_undefined (ir_statusCode (result_of r)) of Some n \<Rightarrow> n | None \<Rightarrow> 200) = replayed_code r"
  by (auto simp: result_of_def or_undefined_def replayed_code_def split: option.splits)

text \<open>
  Claim C2 (idempotent replay and fingerprint conflict). For a request with one of
  the methods POST, PUT and PATCH, an \<open>Idempotency-Key\<close> header and a merchant, and a
  store in which \<open>check\<close> finds a record for the merchant and the key (in Redis, or
  without it an unexpired row of the table): \<open>check\<close> fails with
  \<open>IdempotencyConflictError\<close> for every fingerprint other than the record's
  \<open>request_hash\<close> and writes nothing; for a request with another fingerprint the
  middleware replies 409 with the message of that error and the store is as before;
  for a request with the record's fingerprint the middleware replies, so that the
  handler does not run, and leaves the table as it is: 409 while the record is
  processing, and for a completed record the stored response with the stored status
  code, 200 standing in for a stored code that is null or zero.
\<close>

theorem C2_replay_and_conflict:
  assumes "fr_method request \<in> {''POST'', ''PUT'', ''PATCH''}"
    and "fr_header_idempotency_key request = Some k" and "k \<noteq> []"
    and "fr_merchantId request = Some merchantId" and "merchantId \<noteq> []"
    and "stored_record now k merchantId s = Some r"
  shows
    "(\<forall>h. i_request_hash r \<noteq> h \<longrightarrow>
         IdempotencyService_check now k merchantId h s =
           (Inl (IdempotencyConflictError conflict_message), s)) \<and>
     (i_request_hash r \<noteq>
        generateRequestHash c (fr_body request) (fr_url request) (fr_method request) \<longrightarrow>
      idempotencyMiddleware c now request s =
        (Some (Reply 409 (Some (conflict_body conflict_message))),
         request\<lparr>fr_idempotencyKey := Some k\<rparr>, s)) \<and>
     (i_request_hash r =
        generateRequestHash c (fr_body request) (fr_url request) (fr_method request) \<longrightarrow>
      (\<exists>s'. idempotencyMiddleware c now request s =
              (Some (if i_status r = IProcessing then Reply 409 (Some processing_body)
                     else Reply (replayed_code r) (i_response r)),
               request\<lparr>fr_idempotencyKey := Some k\<rparr>, s') \<and>
            idempotency_keys s' = idempotency_keys s)) \<and>
     (\<forall>n. i_status_code r = Some n \<and> n \<noteq> 0 \<longrightarrow> replayed_code r = n)"
proof (intro conjI allI impI)
  fix h assume "i_request_hash r \<noteq> h"
  with assms(6) show "IdempotencyService_check now k merchantId h s =
           (Inl (IdempotencyConflictError conflict_message), s)"
    by (rule check_conflict)
next
  assume "i_request_hash r \<noteq>
        generateRequestHash c (fr_body request) (fr_url request) (fr_method request)"
  from check_conflict[OF assms(6) this]
  show "idempotencyMiddleware c now request s =
        (Some (Reply 409 (Some (conflict_body conflict_message))),
         request\<lparr>fr_idempotencyKey := Some k\<rparr>, s)"
    by (simp add: middleware_check[OF assms(1-5)] middleware_catch_def)
next
  assume "i_request_hash r =
        generateRequestHash c (fr_body request) (fr_url request) (fr_method request)"
  from check_match[OF assms(6) this] obtain s' where
    s': "IdempotencyService_check now k merchantId
           (generateRequestHash c (fr_body request) (fr_url request) (fr_method request)) s =
         (Inr (result_of r), s')" "idempotency_keys s' = idempotency_keys s"
    by blast
  show "\<exists>s'. idempotencyMiddleware c now request s =
              (Some (if i_status r = IProcessing then Reply 409 (Some processing_body)
                     else Reply (replayed_code r) (i_response r)),
               request\<lparr>fr_idempotencyKey := Some k\<rparr>, s') \<and>
            idempotency_keys s' = idempotency_keys s"
  proof (cases "i_status r")
    case IProcessing
    then show ?thesis using s'
      by (simp add: middleware_check[OF assms(1-5)] result_of_def)
  next
    case ICompleted
    then have "ir_exists (result_of r)" "\<not> ir_isProcessing (result_of r)"
      "ir_response (result_of r) = i_response r"
      by (simp_all add: result_of_def)
    then show ?thesis using s' ICompleted replayed_code_result[OF ICompleted]
      by (simp add: middleware_check[OF assms(1-5)])
  qed
next
  fix n assume "i_status_code r = Some n \<and> n \<noteq> 0"
  then show "replayed_code r = n" by (simp add: replayed_code_def)
qed

lemma ex_key: "getRedisKey ''K'' ''m1'' = ''idempotency:m1:K''"
  by (simp add: getRedisKey_def)

lemma ex_hash:
  "generateRequestHash example_config (fr_body (example_request a)) (fr_url (example_request a))
     (fr_method (example_request a)) = (if a = 100 then ''{amount:100}'' else ''{amount:other}'')"
  by (simp add: generateRequestHash_def example_config_def example_request_def)

lemma ex_store_processing:
  "store_processing =
     \<lparr>redis = [''idempotency:m1:K'' \<mapsto>
          (\<lparr>i_key = ''K'', i_merchant_id = ''m1'', i_request_hash = ''{amount:100}'',
            i_request_path = ''/api/v1/payments'', i_request_method = ''POST'',
            i_response = None, i_status_code = None, i_status = IProcessing,
            i_created_at = None, i_expires_at = 86401000\<rparr>, 86401000)],
      idempotency_keys =
        [\<lparr>i_key = ''K'', i_merchant_id = ''m1'', i_request_hash = ''{amount:100}'',
          i_request_path = ''/api/v1/payments'', i_request_method = ''POST'',
          i_response = None, i_status_code = None, i_status = IProcessing,
          i_created_at = Some 1000, i_expires_at = 86401000\<rparr>]\<rparr>"
  by (simp add: store_processing_def idempotencyMiddleware_def or_null_def
      IdempotencyService_check_def getRedisKey_def redis_get_def select_unexpired_def
      empty_store_def IdempotencyService_startProcessing_def Let_def redis_setex_def
      example_request_def example_config_def generateRequestHash_def)

lemma ex_store_completed:
  "store_completed =
     \<lparr>redis = [''idempotency:m1:K'' \<mapsto>
          (\<lparr>i_key = ''K'', i_merchant_id = ''m1'', i_request_hash = ''{amount:100}'',
            i_request_path = ''/api/v1/payments'', i_request_method = ''POST'',
            i_response = Some example_response, i_status_code = Some 201, i_status = ICompleted,
            i_created_at = None, i_expires_at = 86401000\<rparr>, 86401000)],
      idempotency_keys =
        [\<lparr>i_key = ''K'', i_merchant_id = ''m1'', i_request_hash = ''{amount:100}'',
          i_request_path = ''/api/v1/payments'', i_request_method = ''POST'',
          i_response = Some example_response, i_status_code = Some 201, i_status = ICompleted,
          i_created_at = Some 1000, i_expires_at = 86401000\<rparr>]\<rparr>"
  by (simp add: store_completed_def ex_store_processing idempotencyComplete_def or_null_def
      IdempotencyService_complete_def getRedisKey_def redis_get_def redis_ttl_def
      Let_def redis_setex_def example_request_def)

lemma ex_stored_processing:
  "stored_record 1500 ''K'' ''m1'' store_processing =
     Some \<lparr>i_key = ''K'', i_merchant_id = ''m1'', i_request_hash = ''{amount:100}'',
            i_request_path = ''/api/v1/payments'', i_request_method = ''POST'',
            i_response = None, i_status_code = None, i_status = IProcessing,
            i_created_at = None, i_expires_at = 86401000\<rparr>"
  by (simp add: stored_record_def ex_store_processing redis_get_def getRedisKey_def)

lemma ex_stored_completed:
  "stored_record 3000 ''K'' ''m1'' store_completed =
     Some \<lparr>i_key = ''K'', i_merchant_id = ''m1'', i_request_hash = ''{amount:100}'',
            i_request_path = ''/api/v1/payments'', i_request_method = ''POST'',
            i_response = Some example_response, i_status_code = Some 201, i_status = ICompleted,
            i_created_at = None, i_expires_at = 86401000\<rparr>"
  by (simp add: stored_record_def ex_store_completed redis_get_def getRedisKey_def)

lemma ex_request:
  "fr_method (example_request a) \<in> {''POST'', ''PUT'', ''PATCH''}"
  "fr_header_idempotency_key (example_request a) = Some ''K''" "''K'' \<noteq> []"
  "fr_merchantId (example_request a) = Some ''m1''" "''m1'' \<noteq> []"
  by (simp_all add: example_request_def)

theorem C2_witness:
  "idempotencyMiddleware example_config 3000 (example_request 200) store_completed =
     (Some (Reply 409 (Some (conflict_body conflict_message))),
      (example_request 200)\<lparr>fr_idempotencyKey := Some ''K''\<rparr>, store_completed) \<and>
   (\<exists>s'. idempotencyMiddleware example_config 3000 (example_request 100) store_completed =
           (Some (Reply 201 (Some example_response)),
            (example_request 100)\<lparr>fr_idempotencyKey := Some ''K''\<rparr>, s')) \<and>
   (\<exists>s'. idempotencyMiddleware example_config 1500 (example_request 100) store_processing =
           (Some (Reply 409 (Some processing_body)),
            (example_request 100)\<lparr>fr_idempotencyKey := Some ''K''\<rparr>, s'))"
proof -
  have a: "idempotencyMiddleware example_config 3000 (example_request 200) store_completed =
     (Some (Reply 409 (Some (conflict_body conflict_message))),
      (example_request 200)\<lparr>fr_idempotencyKey := Some ''K''\<rparr>, store_completed)"
    using C2_replay_and_conflict[where request = "example_request 200" and c = example_config, OF ex_request ex_stored_completed]
    by (simp add: ex_hash)
  have b: "\<exists>s'. idempotencyMiddleware example_config 3000 (example_request 100) store_completed =
           (Some (Reply 201 (Some example_response)),
            (example_request 100)\<lparr>fr_idempotencyKey := Some ''K''\<rparr>, s')"
    using C2_replay_and_conflict[where request = "example_request 100" and c = example_config, OF ex_request ex_stored_completed]
    by (auto simp: ex_hash)
  have c: "\<exists>s'. idempotencyMiddleware example_config 1500 (example_request 100) store_processing =
           (Some (Reply 409 (Some processing_body)),
            (example_request 100)\<lparr>fr_idempotencyKey := Some ''K''\<rparr>, s')"
    using C2_replay_and_conflict[where request = "example_request 100" and c = example_config, OF ex_request ex_stored_processing]
    by (auto simp: ex_hash)
  show ?thesis using a b c by blast
qed

end
